theory Spec2Isabelle
  imports Main "HOL-Library.Word" "HOL-Library.Sublist"
begin

section \<open>Event Management API: a shallow embedding of \<^verbatim>\<open>main.py\<close>\<close>

text \<open>
  The program is a FastAPI application over a MongoDB database: a request middleware that
  scans JSON bodies for injection patterns, five-operation repositories over four entity
  collections, and a media store. Each Python function is embedded as a HOL function of
  the same name. Exceptions are values of the type \<open>error\<close> on the left of a sum, the
  database is a record of collections that every handler takes and returns, and what the
  handlers read from their environment (the identifier the driver generates, the clock)
  is an explicit argument.
\<close>

subsection \<open>Strings, bytes and JSON values\<close>

text \<open>
  A Python \<^verbatim>\<open>str\<close> is a sequence of Unicode code points, so it is a list of
  naturals; \<open>py\<close> writes an ASCII literal of the source. A \<^verbatim>\<open>bytes\<close> object is a list
  of octets. Field names of documents and the \<^verbatim>\<open>detail\<close> texts of exceptions are
  literals of the source and stay Isabelle strings.
\<close>

type_synonym codepoint = nat
type_synonym pystr = "codepoint list"
type_synonym bytes = "8 word list"

definition ord :: "char \<Rightarrow> codepoint" where
  "ord c = of_char c"

definition py :: "string \<Rightarrow> pystr" where
  "py s = map ord s"

text \<open>
  The value \<^verbatim>\<open>json.loads\<close> returns: \<^verbatim>\<open>None\<close>, a bool, an int, a float, a str, a
  list, or a dict with str keys. A dict keeps its items in insertion order, which is the
  order \<^verbatim>\<open>obj.items()\<close> yields them, so it is an association list. The guard never looks
  inside a float, so the type of floats stays abstract.
\<close>

typedecl float64

datatype json =
    JNull
  | JBool bool
  | JInt int
  | JFloat float64
  | JStr pystr
  | JList "json list"
  | JDict "(pystr \<times> json) list"

text \<open>
  \<^verbatim>\<open>HTTPException(status_code, detail)\<close> is what the source raises. The storage
  driver raises \<open>DuplicateKeyError\<close> on an insert whose \<^verbatim>\<open>_id\<close> is taken, and a
  subscript on a missing dict key raises \<open>KeyError\<close>, a call on a value of the wrong type
  raises \<open>TypeError\<close> or \<open>AttributeError\<close>, and a header value that is not Latin-1 raises
  \<open>UnicodeEncodeError\<close>; the program catches none of them. The interpreter raises
  \<open>RecursionError\<close> on a call deeper than its recursion limit; the middleware catches it
  with every other \<^verbatim>\<open>Exception\<close>.
\<close>

datatype error =
    HTTPException (status_code: nat) (detail: string)
  | DuplicateKeyError
  | KeyError string
  | TypeError
  | AttributeError
  | UnicodeEncodeError
  | RecursionError

text \<open>
  What the program takes from the Python runtime and not from its own code: the rows of the
  Unicode database beyond ASCII that the \<^verbatim>\<open>re\<close> module consults for \<^verbatim>\<open>\s\<close>, \<^verbatim>\<open>\d\<close>,
  \<^verbatim>\<open>\b\<close> and case-insensitive matching, and \<^verbatim>\<open>json.loads(body.decode("utf-8"))\<close>, which
  is \<open>None\<close> when decoding or parsing raises. The interpreter bounds the depth of nested
  calls: \<open>frames\<close> is the number of nested calls it still allows inside the body of the
  middleware (its recursion limit less the depth of the stack there), and \<open>exc_frames\<close>
  is the number of nested calls that constructing an \<^verbatim>\<open>HTTPException\<close> takes in the
  framework. All theorems hold for every such runtime.
\<close>

record runtime =
  uni_isspace :: "codepoint \<Rightarrow> bool"
  uni_isdecimal :: "codepoint \<Rightarrow> bool"
  uni_isalnum :: "codepoint \<Rightarrow> bool"
  uni_tolower :: "codepoint \<Rightarrow> codepoint"
  json_loads :: "bytes \<Rightarrow> json option"
  frames :: nat
  exc_frames :: nat

text \<open>
  A runtime with nothing beyond ASCII in its tables, for evaluating ASCII inputs. It allows
  1000 nested calls, the interpreter's default recursion limit and so more than is ever
  left inside the middleware, and takes two for the constructor of the exception.
\<close>

definition ascii_runtime :: "(bytes \<Rightarrow> json option) \<Rightarrow> runtime" where
  "ascii_runtime loads =
     \<lparr>uni_isspace = (\<lambda>_. False), uni_isdecimal = (\<lambda>_. False), uni_isalnum = (\<lambda>_. False),
      uni_tolower = (\<lambda>c. c), json_loads = loads, frames = 1000, exc_frames = 2\<rparr>"

subsection \<open>The blacklist pattern\<close>

text \<open>
  \<^verbatim>\<open>BLOCK_PATTERN = re.compile(r"(\$|\{|\}|\[|\]|;|--|/\*|\*/|\b(OR|AND)\b\s+\d=\d)", re.IGNORECASE)\<close>

  The pattern is compiled for \<^verbatim>\<open>str\<close>, so its classes are the Unicode ones. Below 128
  they are fixed: \<^verbatim>\<open>\s\<close> is tab, newline, vertical tab, form feed, carriage return, the
  four separators 28 to 31 and space; \<^verbatim>\<open>\d\<close> is 0 to 9; a word character is a letter, a
  digit or the underscore. A cased literal under \<^verbatim>\<open>IGNORECASE\<close> matches the characters
  whose lower case is the lower case of the literal.
\<close>

definition is_space :: "runtime \<Rightarrow> codepoint \<Rightarrow> bool" where
  "is_space R c = (if c < 128 then c \<in> {9, 10, 11, 12, 13, 28, 29, 30, 31, 32} else uni_isspace R c)"

definition is_digit :: "runtime \<Rightarrow> codepoint \<Rightarrow> bool" where
  "is_digit R c = (if c < 128 then 48 \<le> c \<and> c \<le> 57 else uni_isdecimal R c)"

definition is_word :: "runtime \<Rightarrow> codepoint \<Rightarrow> bool" where
  "is_word R c =
     (if c < 128
      then (48 \<le> c \<and> c \<le> 57) \<or> (65 \<le> c \<and> c \<le> 90) \<or> (97 \<le> c \<and> c \<le> 122) \<or> c = 95
      else uni_isalnum R c)"

definition to_lower :: "runtime \<Rightarrow> codepoint \<Rightarrow> codepoint" where
  "to_lower R c = (if c < 128 then (if 65 \<le> c \<and> c \<le> 90 then c + 32 else c) else uni_tolower R c)"

definition head :: "pystr \<Rightarrow> codepoint option" where
  "head s = (case s of [] \<Rightarrow> None | c # _ \<Rightarrow> Some c)"

text \<open>
  \<^verbatim>\<open>\b\<close> holds between two positions when exactly one of the neighbouring characters is a
  word character; beyond either end of the string there is none.
\<close>

definition word_at :: "runtime \<Rightarrow> codepoint option \<Rightarrow> bool" where
  "word_at R x = (case x of None \<Rightarrow> False | Some c \<Rightarrow> is_word R c)"

definition boundary :: "runtime \<Rightarrow> codepoint option \<Rightarrow> codepoint option \<Rightarrow> bool" where
  "boundary R prev nxt = (word_at R prev \<noteq> word_at R nxt)"

text \<open>
  \<open>ci_lit R kw prev s\<close> consumes the lower-case literal \<open>kw\<close> from the front of \<open>s\<close>
  ignoring case, and returns the last character consumed (for the \<^verbatim>\<open>\b\<close> that follows)
  and the rest.
\<close>

fun ci_lit :: "runtime \<Rightarrow> pystr \<Rightarrow> codepoint option \<Rightarrow> pystr \<Rightarrow> (codepoint option \<times> pystr) option" where
  "ci_lit R [] prev s = Some (prev, s)"
| "ci_lit R (l # ls) prev [] = None"
| "ci_lit R (l # ls) prev (c # cs) = (if to_lower R c = l then ci_lit R ls (Some c) cs else None)"

text \<open>\<^verbatim>\<open>\d=\d\<close> at the front of \<open>s\<close>.\<close>

definition digit_eq_digit :: "runtime \<Rightarrow> pystr \<Rightarrow> bool" where
  "digit_eq_digit R s =
     (case s of a # e # b # _ \<Rightarrow> is_digit R a \<and> e = ord CHR ''='' \<and> is_digit R b | _ \<Rightarrow> False)"

text \<open>\<^verbatim>\<open>\s+\d=\d\<close> at the front of \<open>s\<close>: one space, then more of the same or the comparison.\<close>

fun spaces_then_cmp :: "runtime \<Rightarrow> pystr \<Rightarrow> bool" where
  "spaces_then_cmp R [] = False"
| "spaces_then_cmp R (c # cs) = (is_space R c \<and> (spaces_then_cmp R cs \<or> digit_eq_digit R cs))"

text \<open>One branch of \<^verbatim>\<open>(OR|AND)\<close>, then \<^verbatim>\<open>\b\s+\d=\d\<close>.\<close>

definition keyword_then_cmp :: "runtime \<Rightarrow> pystr \<Rightarrow> codepoint option \<Rightarrow> pystr \<Rightarrow> bool" where
  "keyword_then_cmp R kw prev s =
     (case ci_lit R kw prev s of
        None \<Rightarrow> False
      | Some (prev', rest) \<Rightarrow> boundary R prev' (head rest) \<and> spaces_then_cmp R rest)"

text \<open>The whole alternation at the front of \<open>s\<close>, \<open>prev\<close> being the character before it.\<close>

definition match_here :: "runtime \<Rightarrow> codepoint option \<Rightarrow> pystr \<Rightarrow> bool" where
  "match_here R prev s =
     (prefix (py ''$'') s \<or> prefix (py ''{'') s \<or> prefix (py ''}'') s \<or>
      prefix (py ''['') s \<or> prefix (py '']'') s \<or> prefix (py '';'') s \<or>
      prefix (py ''--'') s \<or> prefix (py ''/*'') s \<or> prefix (py ''*/'') s \<or>
      (boundary R prev (head s) \<and>
        (keyword_then_cmp R (py ''or'') prev s \<or> keyword_then_cmp R (py ''and'') prev s)))"

text \<open>\<^verbatim>\<open>BLOCK_PATTERN.search(value)\<close> tries every start position; only its truth is used.\<close>

fun search_from :: "runtime \<Rightarrow> codepoint option \<Rightarrow> pystr \<Rightarrow> bool" where
  "search_from R prev [] = match_here R prev []"
| "search_from R prev (c # cs) = (match_here R prev (c # cs) \<or> search_from R (Some c) cs)"

definition BLOCK_PATTERN_search :: "runtime \<Rightarrow> pystr \<Rightarrow> bool" where
  "BLOCK_PATTERN_search R s = search_from R None s"

subsection \<open>The injection guard\<close>

text \<open>
  Calls and the recursion limit. In every function below \<open>n\<close> is the number of nested
  calls the interpreter still allows inside the body that is running. A call of a function
  of the program needs one of them and leaves \<open>n - 1\<close> to the body of the callee;
  with none left the call raises \<open>RecursionError\<close>. The statement
  \<^verbatim>\<open>raise HTTPException(status_code=400, detail="Invalid input detected")\<close> first
  constructs the exception, which takes \<open>exc_frames\<close> nested calls.
\<close>

definition raise_invalid_input :: "runtime \<Rightarrow> nat \<Rightarrow> error + unit" where
  "raise_invalid_input R n =
     (if n < exc_frames R then Inl RecursionError
      else Inl (HTTPException 400 ''Invalid input detected''))"

text \<open>
  \<^verbatim>\<open>
  def scan_for_injection(value: str) -> None:
      if value and BLOCK_PATTERN.search(value):
          raise HTTPException(status_code=400, detail="Invalid input detected")
  \<close>
\<close>

definition scan_for_injection :: "runtime \<Rightarrow> nat \<Rightarrow> pystr \<Rightarrow> error + unit" where
  "scan_for_injection R n v =
     (if v \<noteq> [] \<and> BLOCK_PATTERN_search R v
      then raise_invalid_input R n
      else Inr ())"

text \<open>
  \<^verbatim>\<open>
  def sanitize_payload(obj):
      if isinstance(obj, dict):
          for k, v in obj.items():
              if isinstance(k, str) and ("$" in k or "." in k):
                  raise HTTPException(status_code=400, detail="Invalid input detected")
              sanitize_payload(v)
      elif isinstance(obj, list):
          for item in obj:
              sanitize_payload(item)
      elif isinstance(obj, str):
          scan_for_injection(obj)
  \<close>
  The two loops are \<open>sanitize_items\<close> and \<open>sanitize_elems\<close>; a raise ends them. The keys
  of a parsed JSON object are always strings. The calls of \<^verbatim>\<open>sanitize_payload\<close> on a value
  or an item and of \<^verbatim>\<open>scan_for_injection\<close> each need one more nested call.
\<close>

fun sanitize_payload :: "runtime \<Rightarrow> nat \<Rightarrow> json \<Rightarrow> error + unit"
  and sanitize_items :: "runtime \<Rightarrow> nat \<Rightarrow> (pystr \<times> json) list \<Rightarrow> error + unit"
  and sanitize_elems :: "runtime \<Rightarrow> nat \<Rightarrow> json list \<Rightarrow> error + unit"
where
  "sanitize_payload R n (JDict kvs) = sanitize_items R n kvs"
| "sanitize_payload R n (JList xs) = sanitize_elems R n xs"
| "sanitize_payload R n (JStr s) =
     (if n = 0 then Inl RecursionError else scan_for_injection R (n - 1) s)"
| "sanitize_payload R n JNull = Inr ()"
| "sanitize_payload R n (JBool b) = Inr ()"
| "sanitize_payload R n (JInt i) = Inr ()"
| "sanitize_payload R n (JFloat x) = Inr ()"
| "sanitize_items R n [] = Inr ()"
| "sanitize_items R n ((k, v) # kvs) =
     (if ord CHR ''$'' \<in> set k \<or> ord CHR ''.'' \<in> set k
      then raise_invalid_input R n
      else (case (if n = 0 then Inl RecursionError else sanitize_payload R (n - 1) v) of
              Inl e \<Rightarrow> Inl e
            | Inr _ \<Rightarrow> sanitize_items R n kvs))"
| "sanitize_elems R n [] = Inr ()"
| "sanitize_elems R n (item # items) =
     (case (if n = 0 then Inl RecursionError else sanitize_payload R (n - 1) item) of
        Inl e \<Rightarrow> Inl e
      | Inr _ \<Rightarrow> sanitize_elems R n items)"

text \<open>
  A request: its method (the field \<open>http_method\<close>), its headers under lower-case names, and the body messages still
  to be received. \<^verbatim>\<open>await request.body()\<close> joins the messages.
\<close>

record request =
  http_method :: pystr
  headers :: "string \<rightharpoonup> pystr"
  receive :: "bytes list"

definition request_body :: "request \<Rightarrow> bytes" where
  "request_body request = concat (receive request)"

text \<open>\<^verbatim>\<open>request.headers.get("content-type", "")\<close>\<close>

definition content_type_of :: "request \<Rightarrow> pystr" where
  "content_type_of request = (case headers request ''content-type'' of None \<Rightarrow> [] | Some v \<Rightarrow> v)"

text \<open>\<^verbatim>\<open>sub in s\<close> on strings.\<close>

fun str_in :: "pystr \<Rightarrow> pystr \<Rightarrow> bool" where
  "str_in sub [] = (sub = [])"
| "str_in sub (c # cs) = (prefix sub (c # cs) \<or> str_in sub cs)"

text \<open>
  \<^verbatim>\<open>
  async def injection_protection_middleware(request: Request, call_next):
      content_type = request.headers.get("content-type", "")
      if request.method in {"POST", "PUT", "PATCH"} and "application/json" in content_type:
          body = await request.body()
          if body:
              async def receive():
                  return {"type": "http.request", "body": body}
              request._receive = receive
              try:
                  import json
                  payload = json.loads(body.decode("utf-8"))
                  sanitize_payload(payload)
              except HTTPException:
                  raise
              except Exception:
                  pass
      return await call_next(request)
  \<close>
  \<open>call_next\<close> is the rest of the application: it takes the request and the state \<open>s\<close> of
  the application and returns a response or an error, and the new state. When the
  middleware raises, \<open>call_next\<close> is not called and the state is the one it was given.
  \<open>guard_body\<close> is the body of the \<^verbatim>\<open>try\<close>: parsing, then the call of
  \<^verbatim>\<open>sanitize_payload\<close>. Of what it raises, the middleware raises an \<^verbatim>\<open>HTTPException\<close>
  again and passes over anything else, parse errors and \<open>RecursionError\<close> alike.
\<close>

definition guard_body :: "runtime \<Rightarrow> bytes \<Rightarrow> error + unit" where
  "guard_body R body =
     (case json_loads R body of
        None \<Rightarrow> Inr ()
      | Some payload \<Rightarrow>
          if frames R = 0 then Inl RecursionError
          else sanitize_payload R (frames R - 1) payload)"

definition injection_protection_middleware ::
  "runtime \<Rightarrow> request \<Rightarrow> (request \<Rightarrow> 's \<Rightarrow> (error + 'r) \<times> 's) \<Rightarrow> 's \<Rightarrow> (error + 'r) \<times> 's" where
  "injection_protection_middleware R request call_next s =
     (let content_type = content_type_of request in
      if http_method request \<in> {py ''POST'', py ''PUT'', py ''PATCH''} \<and>
         str_in (py ''application/json'') content_type
      then
        (let body = request_body request in
         if body \<noteq> []
         then
           (let request' = request\<lparr>receive := [body]\<rparr> in
            case guard_body R body of
              Inl (HTTPException c d) \<Rightarrow> (Inl (HTTPException c d), s)
            | Inl _ \<Rightarrow> call_next request' s
            | Inr _ \<Rightarrow> call_next request' s)
         else call_next request s)
      else call_next request s)"

subsection \<open>The application around the middleware\<close>

text \<open>
  The framework (FastAPI over Starlette) is not part of the repository. It wraps the
  program in layers, as its documentation orders them: the route handlers innermost, around
  them the exception handlers of the application, around those the functions registered
  with \<^verbatim>\<open>@app.middleware("http")\<close>, and outermost the server-error layer.

  A handler's result is answered with status 200. An \<^verbatim>\<open>HTTPException\<close> a handler raises
  is answered by the exception handlers with its own status code and detail. Any other
  exception passes through them and through \<^verbatim>\<open>call_next\<close>, where the middleware does not
  catch it. An exception that leaves the middleware, one it raises itself included, is
  beyond the exception handlers: the server-error layer answers it with status 500.
\<close>

datatype 'r answer =
    Answer 'r
  | ErrorAnswer nat string

fun status :: "'r answer \<Rightarrow> nat" where
  "status (Answer r) = 200"
| "status (ErrorAnswer c d) = c"

definition exception_handlers ::
  "(request \<Rightarrow> 's \<Rightarrow> (error + 'r) \<times> 's) \<Rightarrow> request \<Rightarrow> 's \<Rightarrow> (error + 'r answer) \<times> 's" where
  "exception_handlers route request s =
     (case route request s of
        (Inr r, s') \<Rightarrow> (Inr (Answer r), s')
      | (Inl (HTTPException c d), s') \<Rightarrow> (Inr (ErrorAnswer c d), s')
      | (Inl e, s') \<Rightarrow> (Inl e, s'))"

definition server_error_layer :: "(error + 'r answer) \<times> 's \<Rightarrow> 'r answer \<times> 's" where
  "server_error_layer outcome =
     (case outcome of
        (Inr a, s) \<Rightarrow> (a, s)
      | (Inl e, s) \<Rightarrow> (ErrorAnswer 500 ''Internal Server Error'', s))"

definition app ::
  "runtime \<Rightarrow> (request \<Rightarrow> 's \<Rightarrow> (error + 'r) \<times> 's) \<Rightarrow> request \<Rightarrow> 's \<Rightarrow> 'r answer \<times> 's" where
  "app R route request s =
     server_error_layer (injection_protection_middleware R request (exception_handlers route) s)"

subsection \<open>What the guard is specified against\<close>

text \<open>Every string value of a parsed structure, and every key of its objects, at any depth.\<close>

fun string_values :: "json \<Rightarrow> pystr set" where
  "string_values (JStr s) = {s}"
| "string_values (JList xs) = (\<Union>x \<in> set xs. string_values x)"
| "string_values (JDict kvs) = (\<Union>kv \<in> set kvs. string_values (snd kv))"
| "string_values _ = {}"

fun all_keys :: "json \<Rightarrow> pystr set" where
  "all_keys (JList xs) = (\<Union>x \<in> set xs. all_keys x)"
| "all_keys (JDict kvs) = (\<Union>kv \<in> set kvs. insert (fst kv) (all_keys (snd kv)))"
| "all_keys _ = {}"

text \<open>
  The nesting of a payload, as the number of nested calls a full walk of it takes below
  the first call of \<^verbatim>\<open>sanitize_payload\<close>: one for a string, one more than its deepest
  member for a list or an object.
\<close>

fun calls_needed :: "json \<Rightarrow> nat" where
  "calls_needed (JStr s) = 1"
| "calls_needed (JList xs) = foldr max (map (\<lambda>x. Suc (calls_needed x)) xs) 0"
| "calls_needed (JDict kvs) = foldr max (map (\<lambda>kv. Suc (calls_needed (snd kv))) kvs) 0"
| "calls_needed _ = 0"

text \<open>
  The payload is within the recursion limit: the walk and the construction of the
  exception fit into the nested calls left to the middleware.
\<close>

definition within_limit :: "runtime \<Rightarrow> json \<Rightarrow> bool" where
  "within_limit R p \<longleftrightarrow> calls_needed p + exc_frames R < frames R"

definition reserved_key :: "pystr \<Rightarrow> bool" where
  "reserved_key k \<longleftrightarrow> ord CHR ''$'' \<in> set k \<or> ord CHR ''.'' \<in> set k"

text \<open>
  The blacklist as the specification words it, without reference to a matcher: one of the
  six single characters occurs, or one of the three two-character sequences, or somewhere
  the token OR or AND in any letter case, with a word boundary on either side, followed by
  at least one space character and a digit, an equals sign and a digit.
\<close>

definition last_of :: "codepoint option \<Rightarrow> pystr \<Rightarrow> codepoint option" where
  "last_of prev pre = (if pre = [] then prev else Some (last pre))"

definition keyword_here :: "runtime \<Rightarrow> codepoint option \<Rightarrow> pystr \<Rightarrow> bool" where
  "keyword_here R prev t \<longleftrightarrow>
     (\<exists>kw ws a b post.
        t = kw @ ws @ [a, ord CHR ''='', b] @ post \<and>
        (map (to_lower R) kw = py ''or'' \<or> map (to_lower R) kw = py ''and'') \<and>
        boundary R prev (Some (hd kw)) \<and>
        boundary R (Some (last kw)) (Some (hd ws)) \<and>
        ws \<noteq> [] \<and> (\<forall>c \<in> set ws. is_space R c) \<and>
        is_digit R a \<and> is_digit R b)"

definition keyword_comparison :: "runtime \<Rightarrow> pystr \<Rightarrow> bool" where
  "keyword_comparison R v \<longleftrightarrow>
     (\<exists>pre kw ws a b post.
        v = pre @ kw @ ws @ [a, ord CHR ''='', b] @ post \<and>
        (map (to_lower R) kw = py ''or'' \<or> map (to_lower R) kw = py ''and'') \<and>
        boundary R (last_of None pre) (Some (hd kw)) \<and>
        boundary R (Some (last kw)) (Some (hd ws)) \<and>
        ws \<noteq> [] \<and> (\<forall>c \<in> set ws. is_space R c) \<and>
        is_digit R a \<and> is_digit R b)"

definition blacklisted :: "runtime \<Rightarrow> pystr \<Rightarrow> bool" where
  "blacklisted R v \<longleftrightarrow>
     (\<exists>c \<in> set v. c \<in> ord ` {CHR ''$'', CHR ''{'', CHR ''}'', CHR ''['', CHR '']'', CHR '';''}) \<or>
     sublist (py ''--'') v \<or> sublist (py ''/*'') v \<or> sublist (py ''*/'') v \<or>
     keyword_comparison R v"

definition offending :: "runtime \<Rightarrow> json \<Rightarrow> bool" where
  "offending R p \<longleftrightarrow>
     (\<exists>k \<in> all_keys p. reserved_key k) \<or> (\<exists>v \<in> string_values p. BLOCK_PATTERN_search R v)"

definition rejection :: "error + unit" where
  "rejection = Inl (HTTPException 400 ''Invalid input detected'')"

text \<open>
  A payload the guard has nothing against: no key holds a reserved character and no string
  value is blacklisted.
\<close>

definition benign :: "runtime \<Rightarrow> json \<Rightarrow> bool" where
  "benign R p \<longleftrightarrow> (\<forall>k \<in> all_keys p. \<not> reserved_key k) \<and> (\<forall>v \<in> string_values p. \<not> blacklisted R v)"

subsection \<open>Identifiers\<close>

text \<open>
  \<^verbatim>\<open>ObjectId\<close> comes from the \<^verbatim>\<open>bson\<close> library, which is not part of the repository. The
  specification describes it as the Identifier Codec: an identifier is a 24-character
  hexadecimal value, \<^verbatim>\<open>decode\<close> fails when the string does not conform to that format,
  and \<^verbatim>\<open>encode\<close> is its inverse and always succeeds. An identifier is twelve octets,
  that is a 96-bit word.
\<close>

type_synonym objectid = "96 word"

text \<open>Hexadecimal digits: the value of a digit in either case, and \<open>k\<close> lower-case digits of a number.\<close>

definition hex_digit :: "nat \<Rightarrow> codepoint" where
  "hex_digit n = (if n < 10 then 48 + n else 87 + n)"

definition hex_value :: "codepoint \<Rightarrow> nat option" where
  "hex_value c =
     (if 48 \<le> c \<and> c \<le> 57 then Some (c - 48)
      else if 97 \<le> c \<and> c \<le> 102 then Some (c - 87)
      else if 65 \<le> c \<and> c \<le> 70 then Some (c - 55)
      else None)"

fun to_hex :: "nat \<Rightarrow> nat \<Rightarrow> pystr" where
  "to_hex 0 n = []"
| "to_hex (Suc k) n = to_hex k (n div 16) @ [hex_digit (n mod 16)]"

fun from_hex :: "nat \<Rightarrow> pystr \<Rightarrow> nat option" where
  "from_hex acc [] = Some acc"
| "from_hex acc (c # cs) =
     (case hex_value c of None \<Rightarrow> None | Some d \<Rightarrow> from_hex (16 * acc + d) cs)"

text \<open>
  Modelled from the spec: the external identifier format of the Identifier Codec, a
  well-formed 24-character hexadecimal string.
\<close>

definition hex24 :: "pystr \<Rightarrow> bool" where
  "hex24 s \<longleftrightarrow> length s = 24 \<and> (\<forall>c \<in> set s. hex_value c \<noteq> None)"

text \<open>
  Modelled from the spec: \<^verbatim>\<open>decode\<close> of the Identifier Codec, the library's
  \<^verbatim>\<open>ObjectId(id_str)\<close>; \<open>None\<close> when it raises.
\<close>

definition ObjectId :: "pystr \<Rightarrow> objectid option" where
  "ObjectId s = (if length s = 24 then map_option of_nat (from_hex 0 s) else None)"

text \<open>
  Modelled from the spec: \<^verbatim>\<open>encode\<close> of the Identifier Codec, the library's
  \<^verbatim>\<open>str(ObjectId)\<close>: the 24 lower-case hexadecimal digits of the identifier.
\<close>

definition str_of_oid :: "objectid \<Rightarrow> pystr" where
  "str_of_oid i = to_hex 24 (unat i)"

text \<open>
  \<^verbatim>\<open>
  def oid(id_str: str) -> ObjectId:
      try:
          return ObjectId(id_str)
      except Exception:
          raise HTTPException(status_code=400, detail="Invalid id format")
  \<close>
\<close>

definition oid :: "pystr \<Rightarrow> error + objectid" where
  "oid id_str =
     (case ObjectId id_str of
        Some i \<Rightarrow> Inr i
      | None \<Rightarrow> Inl (HTTPException 400 ''Invalid id format''))"

subsection \<open>Documents and collections\<close>

text \<open>
  The values the program stores: \<^verbatim>\<open>None\<close>, ints, strings, the bytes of a media file and
  the date of an upload (as the store keeps it). A stored document always carries an
  \<^verbatim>\<open>_id\<close> holding an \<^verbatim>\<open>ObjectId\<close>, which the driver adds on insert; the other fields,
  in order, are the association list \<open>doc_fields\<close>. A collection is the list of its
  documents in the order the store yields them.
\<close>

datatype bson = BNull | BInt int | BStr pystr | BBytes bytes | BDate int

type_synonym fields = "(string \<times> bson) list"

record document =
  doc_id :: objectid
  doc_fields :: fields

type_synonym collection = "document list"

definition ids :: "collection \<Rightarrow> objectid set" where
  "ids c = doc_id ` set c"

text \<open>
  The collection operations belong to the storage driver (\<^verbatim>\<open>motor\<close> over MongoDB), which
  is not part of the repository; each is modelled from what the specification says the
  repository gets from it. The encoding limits of the store (64-bit integers, well-formed
  UTF-8) are not modelled.
\<close>

text \<open>
  Modelled from the spec: \<^verbatim>\<open>collection.insert_one(doc)\<close>, which "inserts a new document
  with a fresh server-assigned id". The identifier the driver generates is the argument
  \<open>new_id\<close>; one already present in the collection violates the unique index on
  \<^verbatim>\<open>_id\<close> and raises. The result is \<^verbatim>\<open>inserted_id\<close> and the new collection.
\<close>

definition insert_one :: "objectid \<Rightarrow> fields \<Rightarrow> collection \<Rightarrow> error + objectid \<times> collection" where
  "insert_one new_id doc c =
     (if new_id \<in> ids c then Inl DuplicateKeyError
      else Inr (new_id, c @ [\<lparr>doc_id = new_id, doc_fields = doc\<rparr>]))"

text \<open>
  Modelled from the spec: \<^verbatim>\<open>collection.find_one({"_id": i})\<close>, which "looks up by id":
  the first document with that id, \<open>None\<close> if there is none.
\<close>

fun find_one_by_id :: "objectid \<Rightarrow> collection \<Rightarrow> document option" where
  "find_one_by_id i [] = None"
| "find_one_by_id i (d # ds) = (if doc_id d = i then Some d else find_one_by_id i ds)"




text \<open>
  Modelled from the spec: \<^verbatim>\<open>collection.delete_one({"_id": i})\<close>, which "removes the
  document": the first with that id. The result is \<^verbatim>\<open>deleted_count\<close> and the new
  collection.
\<close>

fun delete_one :: "objectid \<Rightarrow> collection \<Rightarrow> nat \<times> collection" where
  "delete_one i [] = (0, [])"
| "delete_one i (d # ds) =
     (if doc_id d = i then (1, ds)
      else (case delete_one i ds of (n, ds') \<Rightarrow> (n, d # ds')))"

text \<open>
  Modelled from the spec: \<^verbatim>\<open>collection.find().to_list(n)\<close>, "up to a fixed cap of
  documents in storage-native order".
\<close>

definition to_list :: "nat \<Rightarrow> collection \<Rightarrow> document list" where
  "to_list n c = take n c"

text \<open>
  Modelled from the spec: \<^verbatim>\<open>collection.find_one(flt, sort=[(key, -1)])\<close>, which "finds the
  single document with matching owner_id and category ordered by upload timestamp
  descending, limit 1". \<open>matches\<close> holds of a document that has every field of the filter
  with the given value; \<open>sort_date\<close> is the date a document has under \<open>key\<close>, and a
  document without one sorts below every date. Where several documents share the
  greatest date the store's documentation does not say which it returns; the model takes
  the first in storage order, the order in which the documents were inserted.
\<close>

definition matches :: "fields \<Rightarrow> document \<Rightarrow> bool" where
  "matches flt d = list_all (\<lambda>kv. map_of (doc_fields d) (fst kv) = Some (snd kv)) flt"

definition sort_date :: "string \<Rightarrow> document \<Rightarrow> int option" where
  "sort_date key d = (case map_of (doc_fields d) key of Some (BDate t) \<Rightarrow> Some t | _ \<Rightarrow> None)"

definition date_less :: "int option \<Rightarrow> int option \<Rightarrow> bool" where
  "date_less a b =
     (case b of None \<Rightarrow> False | Some y \<Rightarrow> (case a of None \<Rightarrow> True | Some x \<Rightarrow> x < y))"

fun first_greatest :: "string \<Rightarrow> document list \<Rightarrow> document option" where
  "first_greatest key [] = None"
| "first_greatest key (d # ds) =
     (case first_greatest key ds of
        None \<Rightarrow> Some d
      | Some b \<Rightarrow> if date_less (sort_date key d) (sort_date key b) then Some b else Some d)"

definition find_one_sorted_desc :: "fields \<Rightarrow> string \<Rightarrow> collection \<Rightarrow> document option" where
  "find_one_sorted_desc flt key c = first_greatest key (filter (matches flt) c)"

text \<open>
  \<^verbatim>\<open>db = client.leeMuscatDB\<close>: the five collections the program uses.
\<close>

record database =
  db_events :: collection
  db_attendees :: collection
  db_venues :: collection
  db_booking :: collection
  db_media :: collection

text \<open>
  What a handler returns: \<^verbatim>\<open>{"message": m, "id": i}\<close>, \<^verbatim>\<open>{"message": m}\<close>, one document, a
  list of documents, or a \<^verbatim>\<open>StreamingResponse\<close> with its content, its media type and the
  file name of its \<^verbatim>\<open>Content-Disposition\<close> header.
\<close>

datatype response =
    Created string pystr
  | Ack string
  | Document fields
  | Documents "fields list"
  | StreamingResponse bytes bson bson

subsection \<open>Entity repositories\<close>

text \<open>
  \<^verbatim>\<open>
  def to_json(doc):
      doc["_id"] = str(doc["_id"])
      return doc

  async def get_or_404(collection, id_str: str):
      doc = await collection.find_one({"_id": oid(id_str)})
      if not doc:
          raise HTTPException(status_code=404, detail="Not found")
      return doc
  \<close>
  The driver returns \<^verbatim>\<open>_id\<close> as the first field of a document, and \<^verbatim>\<open>to_json\<close> replaces its
  value where it stands. A document the driver returns is never empty, so \<^verbatim>\<open>not doc\<close>
  holds of \<^verbatim>\<open>None\<close> alone.
\<close>

definition to_json :: "document \<Rightarrow> fields" where
  "to_json doc = (''_id'', BStr (str_of_oid (doc_id doc))) # doc_fields doc"

definition get_or_404 :: "collection \<Rightarrow> pystr \<Rightarrow> error + document" where
  "get_or_404 collection id_str =
     (case oid id_str of
        Inl e \<Rightarrow> Inl e
      | Inr i \<Rightarrow>
          (case find_one_by_id i collection of
             None \<Rightarrow> Inl (HTTPException 404 ''Not found'')
           | Some doc \<Rightarrow> Inr doc))"

text \<open>
  The four models and \<^verbatim>\<open>model_dump()\<close>, the dict of all their fields in declaration
  order. An absent \<^verbatim>\<open>phone\<close> is dumped as \<^verbatim>\<open>None\<close>.
\<close>

record Event =
  event_name :: pystr
  event_description :: pystr
  event_date :: pystr
  event_venue_id :: pystr
  event_max_attendees :: int

record Attendee =
  attendee_name :: pystr
  attendee_email :: pystr
  attendee_phone :: "pystr option"

record Venue =
  venue_name :: pystr
  venue_address :: pystr
  venue_capacity :: int

record Booking =
  booking_event_id :: pystr
  booking_attendee_id :: pystr
  booking_ticket_type :: pystr
  booking_quantity :: int

definition Event_model_dump :: "Event \<Rightarrow> fields" where
  "Event_model_dump e =
     [(''name'', BStr (event_name e)), (''description'', BStr (event_description e)),
      (''date'', BStr (event_date e)), (''venue_id'', BStr (event_venue_id e)),
      (''max_attendees'', BInt (event_max_attendees e))]"

definition Attendee_model_dump :: "Attendee \<Rightarrow> fields" where
  "Attendee_model_dump a =
     [(''name'', BStr (attendee_name a)), (''email'', BStr (attendee_email a)),
      (''phone'', (case attendee_phone a of None \<Rightarrow> BNull | Some p \<Rightarrow> BStr p))]"

definition Venue_model_dump :: "Venue \<Rightarrow> fields" where
  "Venue_model_dump v =
     [(''name'', BStr (venue_name v)), (''address'', BStr (venue_address v)),
      (''capacity'', BInt (venue_capacity v))]"

definition Booking_model_dump :: "Booking \<Rightarrow> fields" where
  "Booking_model_dump b =
     [(''event_id'', BStr (booking_event_id b)), (''attendee_id'', BStr (booking_attendee_id b)),
      (''ticket_type'', BStr (booking_ticket_type b)), (''quantity'', BInt (booking_quantity b))]"

text \<open>
  The handlers of \<^verbatim>\<open>/events\<close>:
  \<^verbatim>\<open>
  async def create_event(event: Event):
      result = await db.events.insert_one(event.model_dump())
      return {"message": "Event created", "id": str(result.inserted_id)}

  async def list_events():
      docs = await db.events.find().to_list(100)
      return [to_json(d) for d in docs]

  async def get_event(event_id: str):
      doc = await get_or_404(db.events, event_id)
      return to_json(doc)

  async def update_event(event_id: str, event: Event):
      result = await db.events.update_one({"_id": oid(event_id)}, {"$set": event.model_dump()})
      if result.matched_count == 0:
          raise HTTPException(status_code=404, detail="Event not found")
      return {"message": "Event updated"}

  async def delete_event(event_id: str):
      result = await db.events.delete_one({"_id": oid(event_id)})
      if result.deleted_count == 0:
          raise HTTPException(status_code=404, detail="Event not found")
      return {"message": "Event deleted"}
  \<close>
  Every handler takes the database and returns it with its result.
\<close>

definition create_event :: "objectid \<Rightarrow> Event \<Rightarrow> database \<Rightarrow> (error + response) \<times> database" where
  "create_event new_id event db =
     (case insert_one new_id (Event_model_dump event) (db_events db) of
        Inl e \<Rightarrow> (Inl e, db)
      | Inr (inserted_id, c) \<Rightarrow>
          (Inr (Created ''Event created'' (str_of_oid inserted_id)), db\<lparr>db_events := c\<rparr>))"

definition list_events :: "database \<Rightarrow> (error + response) \<times> database" where
  "list_events db = (Inr (Documents (map to_json (to_list 100 (db_events db)))), db)"

definition get_event :: "pystr \<Rightarrow> database \<Rightarrow> (error + response) \<times> database" where
  "get_event event_id db =
     (case get_or_404 (db_events db) event_id of
        Inl e \<Rightarrow> (Inl e, db)
      | Inr doc \<Rightarrow> (Inr (Document (to_json doc)), db))"


definition delete_event :: "pystr \<Rightarrow> database \<Rightarrow> (error + response) \<times> database" where
  "delete_event event_id db =
     (case oid event_id of
        Inl e \<Rightarrow> (Inl e, db)
      | Inr i \<Rightarrow>
          (case delete_one i (db_events db) of
             (deleted_count, c) \<Rightarrow>
               if deleted_count = 0
               then (Inl (HTTPException 404 ''Event not found''), db\<lparr>db_events := c\<rparr>)
               else (Inr (Ack ''Event deleted''), db\<lparr>db_events := c\<rparr>)))"

text \<open>
The handlers of \<^verbatim>\<open>/attendees\<close>, \<^verbatim>\<open>/venues\<close> and \<^verbatim>\<open>/booking\<close> repeat them on their own
  collection, model and messages.
\<close>

definition create_attendee :: "objectid \<Rightarrow> Attendee \<Rightarrow> database \<Rightarrow> (error + response) \<times> database" where
  "create_attendee new_id attendee db =
     (case insert_one new_id (Attendee_model_dump attendee) (db_attendees db) of
        Inl e \<Rightarrow> (Inl e, db)
      | Inr (inserted_id, c) \<Rightarrow>
          (Inr (Created ''Attendee created'' (str_of_oid inserted_id)), db\<lparr>db_attendees := c\<rparr>))"

definition list_attendees :: "database \<Rightarrow> (error + response) \<times> database" where
  "list_attendees db = (Inr (Documents (map to_json (to_list 100 (db_attendees db)))), db)"

definition get_attendee :: "pystr \<Rightarrow> database \<Rightarrow> (error + response) \<times> database" where
  "get_attendee attendee_id db =
     (case get_or_404 (db_attendees db) attendee_id of
        Inl e \<Rightarrow> (Inl e, db)
      | Inr doc \<Rightarrow> (Inr (Document (to_json doc)), db))"


definition delete_attendee :: "pystr \<Rightarrow> database \<Rightarrow> (error + response) \<times> database" where
  "delete_attendee attendee_id db =
     (case oid attendee_id of
        Inl e \<Rightarrow> (Inl e, db)
      | Inr i \<Rightarrow>
          (case delete_one i (db_attendees db) of
             (deleted_count, c) \<Rightarrow>
               if deleted_count = 0
               then (Inl (HTTPException 404 ''Attendee not found''), db\<lparr>db_attendees := c\<rparr>)
               else (Inr (Ack ''Attendee deleted''), db\<lparr>db_attendees := c\<rparr>)))"

definition create_venue :: "objectid \<Rightarrow> Venue \<Rightarrow> database \<Rightarrow> (error + response) \<times> database" where
  "create_venue new_id venue db =
     (case insert_one new_id (Venue_model_dump venue) (db_venues db) of
        Inl e \<Rightarrow> (Inl e, db)
      | Inr (inserted_id, c) \<Rightarrow>
          (Inr (Created ''Venue created'' (str_of_oid inserted_id)), db\<lparr>db_venues := c\<rparr>))"

definition list_venues :: "database \<Rightarrow> (error + response) \<times> database" where
  "list_venues db = (Inr (Documents (map to_json (to_list 100 (db_venues db)))), db)"

definition get_venue :: "pystr \<Rightarrow> database \<Rightarrow> (error + response) \<times> database" where
  "get_venue venue_id db =
     (case get_or_404 (db_venues db) venue_id of
        Inl e \<Rightarrow> (Inl e, db)
      | Inr doc \<Rightarrow> (Inr (Document (to_json doc)), db))"


definition delete_venue :: "pystr \<Rightarrow> database \<Rightarrow> (error + response) \<times> database" where
  "delete_venue venue_id db =
     (case oid venue_id of
        Inl e \<Rightarrow> (Inl e, db)
      | Inr i \<Rightarrow>
          (case delete_one i (db_venues db) of
             (deleted_count, c) \<Rightarrow>
               if deleted_count = 0
               then (Inl (HTTPException 404 ''Venue not found''), db\<lparr>db_venues := c\<rparr>)
               else (Inr (Ack ''Venue deleted''), db\<lparr>db_venues := c\<rparr>)))"

definition create_booking :: "objectid \<Rightarrow> Booking \<Rightarrow> database \<Rightarrow> (error + response) \<times> database" where
  "create_booking new_id booking db =
     (case insert_one new_id (Booking_model_dump booking) (db_booking db) of
        Inl e \<Rightarrow> (Inl e, db)
      | Inr (inserted_id, c) \<Rightarrow>
          (Inr (Created ''Booking created'' (str_of_oid inserted_id)), db\<lparr>db_booking := c\<rparr>))"

definition list_bookings :: "database \<Rightarrow> (error + response) \<times> database" where
  "list_bookings db = (Inr (Documents (map to_json (to_list 100 (db_booking db)))), db)"

definition get_booking :: "pystr \<Rightarrow> database \<Rightarrow> (error + response) \<times> database" where
  "get_booking booking_id db =
     (case get_or_404 (db_booking db) booking_id of
        Inl e \<Rightarrow> (Inl e, db)
      | Inr doc \<Rightarrow> (Inr (Document (to_json doc)), db))"


definition delete_booking :: "pystr \<Rightarrow> database \<Rightarrow> (error + response) \<times> database" where
  "delete_booking booking_id db =
     (case oid booking_id of
        Inl e \<Rightarrow> (Inl e, db)
      | Inr i \<Rightarrow>
          (case delete_one i (db_booking db) of
             (deleted_count, c) \<Rightarrow>
               if deleted_count = 0
               then (Inl (HTTPException 404 ''Booking not found''), db\<lparr>db_booking := c\<rparr>)
               else (Inr (Ack ''Booking deleted''), db\<lparr>db_booking := c\<rparr>)))"

subsection \<open>Media store\<close>

text \<open>
  An uploaded file as the handlers read it: \<^verbatim>\<open>file.filename\<close>, \<^verbatim>\<open>file.content_type\<close> and
  the bytes of \<^verbatim>\<open>await file.read()\<close>.
\<close>

record UploadFile =
  filename :: "pystr option"
  content_type :: "pystr option"
  content :: bytes

definition opt_str :: "pystr option \<Rightarrow> bson" where
  "opt_str x = (case x of None \<Rightarrow> BNull | Some s \<Rightarrow> BStr s)"

text \<open>
  \<^verbatim>\<open>
  async def upload_media(collection, link_field, link_id, media_type, file):
      content = await file.read()
      doc = {
          link_field: link_id,
          "media_type": media_type,
          "filename": file.filename,
          "content_type": file.content_type,
          "content": content,
          "uploaded_at": datetime.utcnow()
      }
      result = await collection.insert_one(doc)
      return {"message": "Uploaded", "id": str(result.inserted_id)}
  \<close>
  \<open>media_fields\<close> is the dict \<^verbatim>\<open>doc\<close>; \<open>now\<close> is the reading of the clock as the store
  keeps it.
\<close>

definition media_fields :: "string \<Rightarrow> pystr \<Rightarrow> string \<Rightarrow> UploadFile \<Rightarrow> int \<Rightarrow> fields" where
  "media_fields link_field link_id media_type file now =
     [(link_field, BStr link_id),
      (''media_type'', BStr (py media_type)),
      (''filename'', opt_str (filename file)),
      (''content_type'', opt_str (content_type file)),
      (''content'', BBytes (content file)),
      (''uploaded_at'', BDate now)]"

definition upload_media ::
  "objectid \<Rightarrow> int \<Rightarrow> collection \<Rightarrow> string \<Rightarrow> pystr \<Rightarrow> string \<Rightarrow> UploadFile
     \<Rightarrow> error + response \<times> collection" where
  "upload_media new_id now collection link_field link_id media_type file =
     (let doc = media_fields link_field link_id media_type file now
      in case insert_one new_id doc collection of
           Inl e \<Rightarrow> Inl e
         | Inr (inserted_id, c) \<Rightarrow> Inr (Created ''Uploaded'' (str_of_oid inserted_id), c))"

text \<open>
  \<^verbatim>\<open>
  async def stream_latest_media(collection, link_field, link_id, media_type):
      doc = await collection.find_one(
          {link_field: link_id, "media_type": media_type},
          sort=[("uploaded_at", -1)]
      )
      if not doc:
          raise HTTPException(status_code=404, detail="No media found")
      return StreamingResponse(
          io.BytesIO(doc["content"]),
          media_type=doc["content_type"],
          headers={"Content-Disposition": f'inline; filename="{doc["filename"]}"'}
      )
  \<close>
  \<open>media_filter\<close> is the filter dict and \<open>streaming_response\<close> the \<^verbatim>\<open>return\<close> statement,
  whose three subscripts are evaluated in this order. \<^verbatim>\<open>io.BytesIO(None)\<close> is an empty
  stream.

  \<^verbatim>\<open>StreamingResponse\<close> is the framework's. Its constructor encodes the headers it is given
  in Latin-1, and then the media type, unless that is \<^verbatim>\<open>None\<close>, after testing it with
  \<^verbatim>\<open>startswith("text/")\<close>. So it raises \<^verbatim>\<open>UnicodeEncodeError\<close> for a file name, and then
  for a content type, with a character beyond U+00FF, \<^verbatim>\<open>TypeError\<close> for a content type
  that is a byte string, and \<^verbatim>\<open>AttributeError\<close> for one that is a number or a date. The
  f-string formats a file name that is not a string (\<^verbatim>\<open>None\<close>, a number, bytes, a date)
  as ASCII text. \<open>new_StreamingResponse\<close> is the constructor call; the response it returns
  is recorded by the three arguments the program computes: the bytes, the media type and
  the file name.
\<close>

definition latin1 :: "pystr \<Rightarrow> bool" where
  "latin1 s = list_all (\<lambda>c. c < 256) s"

definition new_StreamingResponse :: "bytes \<Rightarrow> bson \<Rightarrow> bson \<Rightarrow> error + response" where
  "new_StreamingResponse b ct fn =
     (if (case fn of BStr s \<Rightarrow> \<not> latin1 s | _ \<Rightarrow> False) then Inl UnicodeEncodeError
      else (case ct of
              BNull \<Rightarrow> Inr (StreamingResponse b ct fn)
            | BStr t \<Rightarrow> if latin1 t then Inr (StreamingResponse b ct fn) else Inl UnicodeEncodeError
            | BBytes x \<Rightarrow> Inl TypeError
            | BInt i \<Rightarrow> Inl AttributeError
            | BDate t \<Rightarrow> Inl AttributeError))"

definition streaming_response :: "document \<Rightarrow> error + response" where
  "streaming_response doc =
     (case map_of (doc_fields doc) ''content'' of
        None \<Rightarrow> Inl (KeyError ''content'')
      | Some v \<Rightarrow>
          (case (case v of BBytes b \<Rightarrow> Some b | BNull \<Rightarrow> Some [] | _ \<Rightarrow> None) of
             None \<Rightarrow> Inl TypeError
           | Some b \<Rightarrow>
               (case map_of (doc_fields doc) ''content_type'' of
                  None \<Rightarrow> Inl (KeyError ''content_type'')
                | Some ct \<Rightarrow>
                    (case map_of (doc_fields doc) ''filename'' of
                       None \<Rightarrow> Inl (KeyError ''filename'')
                     | Some fn \<Rightarrow> new_StreamingResponse b ct fn))))"

definition media_filter :: "string \<Rightarrow> pystr \<Rightarrow> string \<Rightarrow> fields" where
  "media_filter link_field link_id media_type =
     [(link_field, BStr link_id), (''media_type'', BStr (py media_type))]"

definition stream_latest_media :: "collection \<Rightarrow> string \<Rightarrow> pystr \<Rightarrow> string \<Rightarrow> error + response" where
  "stream_latest_media collection link_field link_id media_type =
     (case find_one_sorted_desc (media_filter link_field link_id media_type) ''uploaded_at'' collection of
        None \<Rightarrow> Inl (HTTPException 404 ''No media found'')
      | Some doc \<Rightarrow> streaming_response doc)"

text \<open>
  \<^verbatim>\<open>
  async def upload_event_poster(event_id: str, file: UploadFile = File(...)):
      if not file.content_type or not file.content_type.startswith("image/"):
          raise HTTPException(status_code=400, detail="Poster must be an image")
      return await upload_media(db.media, "event_id", event_id, "event_poster", file)

  async def get_event_poster(event_id: str):
      return await stream_latest_media(db.media, "event_id", event_id, "event_poster")
  \<close>
  and the same for promo videos (\<^verbatim>\<open>video/\<close>) and venue photos. \<open>lacks_prefix\<close> is the
  condition of the \<^verbatim>\<open>if\<close>.
\<close>

definition lacks_prefix :: "pystr option \<Rightarrow> string \<Rightarrow> bool" where
  "lacks_prefix ct p = (case ct of None \<Rightarrow> True | Some t \<Rightarrow> t = [] \<or> \<not> prefix (py p) t)"

definition upload_event_poster ::
  "objectid \<Rightarrow> int \<Rightarrow> pystr \<Rightarrow> UploadFile \<Rightarrow> database \<Rightarrow> (error + response) \<times> database" where
  "upload_event_poster new_id now event_id file db =
     (if lacks_prefix (content_type file) ''image/''
      then (Inl (HTTPException 400 ''Poster must be an image''), db)
      else (case upload_media new_id now (db_media db) ''event_id'' event_id ''event_poster'' file of
              Inl e \<Rightarrow> (Inl e, db)
            | Inr (r, c) \<Rightarrow> (Inr r, db\<lparr>db_media := c\<rparr>)))"

definition upload_promo_video ::
  "objectid \<Rightarrow> int \<Rightarrow> pystr \<Rightarrow> UploadFile \<Rightarrow> database \<Rightarrow> (error + response) \<times> database" where
  "upload_promo_video new_id now event_id file db =
     (if lacks_prefix (content_type file) ''video/''
      then (Inl (HTTPException 400 ''Promo must be a video''), db)
      else (case upload_media new_id now (db_media db) ''event_id'' event_id ''promo_video'' file of
              Inl e \<Rightarrow> (Inl e, db)
            | Inr (r, c) \<Rightarrow> (Inr r, db\<lparr>db_media := c\<rparr>)))"

definition upload_venue_photo ::
  "objectid \<Rightarrow> int \<Rightarrow> pystr \<Rightarrow> UploadFile \<Rightarrow> database \<Rightarrow> (error + response) \<times> database" where
  "upload_venue_photo new_id now venue_id file db =
     (if lacks_prefix (content_type file) ''image/''
      then (Inl (HTTPException 400 ''Venue photo must be an image''), db)
      else (case upload_media new_id now (db_media db) ''venue_id'' venue_id ''venue_photo'' file of
              Inl e \<Rightarrow> (Inl e, db)
            | Inr (r, c) \<Rightarrow> (Inr r, db\<lparr>db_media := c\<rparr>)))"

definition get_event_poster :: "pystr \<Rightarrow> database \<Rightarrow> (error + response) \<times> database" where
  "get_event_poster event_id db =
     (case stream_latest_media (db_media db) ''event_id'' event_id ''event_poster'' of
        Inl e \<Rightarrow> (Inl e, db)
      | Inr r \<Rightarrow> (Inr r, db))"

definition get_promo_video :: "pystr \<Rightarrow> database \<Rightarrow> (error + response) \<times> database" where
  "get_promo_video event_id db =
     (case stream_latest_media (db_media db) ''event_id'' event_id ''promo_video'' of
        Inl e \<Rightarrow> (Inl e, db)
      | Inr r \<Rightarrow> (Inr r, db))"

definition get_venue_photo :: "pystr \<Rightarrow> database \<Rightarrow> (error + response) \<times> database" where
  "get_venue_photo venue_id db =
     (case stream_latest_media (db_media db) ''venue_id'' venue_id ''venue_photo'' of
        Inl e \<Rightarrow> (Inl e, db)
      | Inr r \<Rightarrow> (Inr r, db))"

subsection \<open>What the repositories are specified against\<close>

text \<open>
  The generic contract of an entity repository, stated once for a handler, the collection
  it works on and the \<^verbatim>\<open>model_dump\<close> of its model, and instantiated for each of the four
  collections.

  Round trip: creating an entity succeeds when the generated identifier is fresh, and
  whenever it succeeds, getting the returned id yields the dumped entity with the id, as a
  string, under \<^verbatim>\<open>_id\<close>.
\<close>

definition roundtrip ::
  "(objectid \<Rightarrow> 'e \<Rightarrow> database \<Rightarrow> (error + response) \<times> database) \<Rightarrow>
   (pystr \<Rightarrow> database \<Rightarrow> (error + response) \<times> database) \<Rightarrow>
   (database \<Rightarrow> collection) \<Rightarrow> ('e \<Rightarrow> fields) \<Rightarrow> bool" where
  "roundtrip create get coll dump \<longleftrightarrow>
     (\<forall>new_id e db.
        (new_id \<notin> ids (coll db) \<longrightarrow>
           (\<exists>msg db'. create new_id e db = (Inr (Created msg (str_of_oid new_id)), db'))) \<and>
        (\<forall>msg s db'. create new_id e db = (Inr (Created msg s), db') \<longrightarrow>
           get s db' = (Inr (Document ((''_id'', BStr s) # dump e)), db')))"

text \<open>
  Some stored document has the id that the string \<open>s\<close> decodes to.
\<close>

definition stored_under :: "pystr \<Rightarrow> collection \<Rightarrow> bool" where
  "stored_under s c \<longleftrightarrow> (\<exists>d \<in> set c. ObjectId s = Some (doc_id d))"

text \<open>
  Get by id: a string that is not a well-formed 24-character hexadecimal identifier
  fails with 400; a well-formed one that is the id of no stored document fails with 404.
\<close>

definition get_contract ::
  "(pystr \<Rightarrow> database \<Rightarrow> (error + response) \<times> database) \<Rightarrow> (database \<Rightarrow> collection) \<Rightarrow> bool" where
  "get_contract get coll \<longleftrightarrow>
     (\<forall>s db.
        (\<not> hex24 s \<longrightarrow> get s db = (Inl (HTTPException 400 ''Invalid id format''), db)) \<and>
        (hex24 s \<and> \<not> stored_under s (coll db) \<longrightarrow>
           get s db = (Inl (HTTPException 404 ''Not found''), db)))"


text \<open>
  Delete: 400 on a malformed id; 404 on a well-formed id of no stored document; on the id
  of a stored document (ids being unique in a collection) the delete succeeds, the id is
  gone from the collection, and deleting it again fails with 404.
\<close>

definition delete_contract ::
  "(pystr \<Rightarrow> database \<Rightarrow> (error + response) \<times> database) \<Rightarrow>
   (database \<Rightarrow> collection) \<Rightarrow> string \<Rightarrow> string \<Rightarrow> bool" where
  "delete_contract delete coll not_found deleted \<longleftrightarrow>
     (\<forall>s db.
        (\<not> hex24 s \<longrightarrow> delete s db = (Inl (HTTPException 400 ''Invalid id format''), db)) \<and>
        (hex24 s \<and> \<not> stored_under s (coll db) \<longrightarrow>
           delete s db = (Inl (HTTPException 404 not_found), db)) \<and>
        (\<forall>i. ObjectId s = Some i \<and> i \<in> ids (coll db) \<and> distinct (map doc_id (coll db)) \<longrightarrow>
           (\<exists>db'. delete s db = (Inr (Ack deleted), db') \<and>
              ids (coll db') = ids (coll db) - {i} \<and>
              delete s db' = (Inl (HTTPException 404 not_found), db'))))"

text \<open>
  The media store. An attachment belongs to an owner and a category when it holds the
  owner id under the owner field and the category under \<^verbatim>\<open>media_type\<close>. \<open>has_media\<close>:
  some stored attachment belongs to them. \<open>all_older\<close>: every stored attachment that
  belongs to them was uploaded before the time \<open>t\<close>. \<open>newest\<close>: the attachment \<open>d\<close> is
  stored, belongs to them, and no stored attachment that belongs to them has a later upload
  time. \<open>encodable\<close>: the file name and the content type of an uploaded file, where it has
  them, are Latin-1 text.
\<close>

definition owned :: "string \<Rightarrow> pystr \<Rightarrow> string \<Rightarrow> document \<Rightarrow> bool" where
  "owned link_field link_id media_type d \<longleftrightarrow>
     map_of (doc_fields d) link_field = Some (BStr link_id) \<and>
     map_of (doc_fields d) ''media_type'' = Some (BStr (py media_type))"

definition has_media :: "collection \<Rightarrow> string \<Rightarrow> pystr \<Rightarrow> string \<Rightarrow> bool" where
  "has_media c link_field link_id media_type \<longleftrightarrow>
     (\<exists>d \<in> set c. owned link_field link_id media_type d)"

definition all_older :: "collection \<Rightarrow> string \<Rightarrow> pystr \<Rightarrow> string \<Rightarrow> int \<Rightarrow> bool" where
  "all_older c link_field link_id media_type t \<longleftrightarrow>
     (\<forall>d \<in> set c. owned link_field link_id media_type d \<longrightarrow>
        date_less (sort_date ''uploaded_at'' d) (Some t))"

definition newest :: "collection \<Rightarrow> string \<Rightarrow> pystr \<Rightarrow> string \<Rightarrow> document \<Rightarrow> bool" where
  "newest c link_field link_id media_type d \<longleftrightarrow>
     d \<in> set c \<and> owned link_field link_id media_type d \<and>
     (\<forall>d' \<in> set c. owned link_field link_id media_type d' \<longrightarrow>
        \<not> date_less (sort_date ''uploaded_at'' d) (sort_date ''uploaded_at'' d'))"

definition encodable :: "UploadFile \<Rightarrow> bool" where
  "encodable file \<longleftrightarrow>
     (case filename file of None \<Rightarrow> True | Some s \<Rightarrow> latin1 s) \<and>
     (case content_type file of None \<Rightarrow> True | Some s \<Rightarrow> latin1 s)"

subsection \<open>Concrete inputs\<close>

text \<open>
  A runtime whose \<^verbatim>\<open>json.loads\<close> parses one given body into one given payload, a POST
  request with content type \<^verbatim>\<open>application/json\<close>, and a handler that returns the
  body it reads and counts its calls in the state. The bodies are the UTF-8 texts
  \<^verbatim>\<open>{"a;b": 1}\<close>, \<^verbatim>\<open>{"q": ["1 OR 1=1"]}\<close>, \<^verbatim>\<open>{"a": {"b.c": 1}}\<close>,
  \<^verbatim>\<open>{"name": "Summer Fest"}\<close> and \<^verbatim>\<open>{$nope\<close>, which is not JSON.
\<close>

definition demo_loads :: "bytes \<Rightarrow> json \<Rightarrow> bytes \<Rightarrow> json option" where
  "demo_loads body payload b = (if b = body then Some payload else None)"

definition demo_runtime :: "bytes \<Rightarrow> json \<Rightarrow> runtime" where
  "demo_runtime body payload = ascii_runtime (demo_loads body payload)"

definition demo_request :: "bytes \<Rightarrow> request" where
  "demo_request body =
     \<lparr>http_method = py ''POST'', headers = [''content-type'' \<mapsto> py ''application/json''], receive = [body]\<rparr>"

definition echo_handler :: "request \<Rightarrow> nat \<Rightarrow> (error + bytes) \<times> nat" where
  "echo_handler r n = (Inr (request_body r), Suc n)"

definition body_semicolon_key :: bytes where
  "body_semicolon_key = [123, 34, 97, 59, 98, 34, 58, 32, 49, 125]"

definition payload_semicolon_key :: json where
  "payload_semicolon_key = JDict [(py ''a;b'', JInt 1)]"

definition body_or_value :: bytes where
  "body_or_value = [123, 34, 113, 34, 58, 32, 91, 34, 49, 32, 79, 82, 32, 49, 61, 49, 34, 93, 125]"

definition payload_or_value :: json where
  "payload_or_value = JDict [(py ''q'', JList [JStr (py ''1 OR 1=1'')])]"

definition body_dotted_key :: bytes where
  "body_dotted_key = [123, 34, 97, 34, 58, 32, 123, 34, 98, 46, 99, 34, 58, 32, 49, 125, 125]"

definition payload_dotted_key :: json where
  "payload_dotted_key = JDict [(py ''a'', JDict [(py ''b.c'', JInt 1)])]"

definition body_benign :: bytes where
  "body_benign = [123, 34, 110, 97, 109, 101, 34, 58, 32, 34, 83, 117, 109, 109, 101, 114, 32, 70,
     101, 115, 116, 34, 125]"

definition payload_benign :: json where
  "payload_benign = JDict [(py ''name'', JStr (py ''Summer Fest''))]"

definition body_not_json :: bytes where
  "body_not_json = [123, 36, 110, 111, 112, 101]"

definition loads_nothing :: "bytes \<Rightarrow> json option" where
  "loads_nothing b = None"

text \<open>
  A payload nested deeper than the call stack of \<open>ascii_runtime\<close> allows: the object
  \<^verbatim>\<open>{"$w": 1}\<close> wrapped in one thousand arrays, and the body that spells it.
\<close>

fun nested :: "nat \<Rightarrow> json \<Rightarrow> json" where
  "nested 0 p = p"
| "nested (Suc k) p = JList [nested k p]"

definition body_deep :: bytes where
  "body_deep = replicate 1000 91 @ [123, 34, 36, 119, 34, 58, 32, 49, 125] @ replicate 1000 93"

definition payload_deep :: json where
  "payload_deep = nested 1000 (JDict [(py ''$w'', JInt 1)])"

text \<open>
  An empty database, two events, a database holding the first event under the identifier
  7, three id strings, two image files, and the media collection after one and after two
  poster uploads for the same event.
\<close>

definition empty_db :: database where
  "empty_db = \<lparr>db_events = [], db_attendees = [], db_venues = [], db_booking = [], db_media = []\<rparr>"

definition summer_fest :: Event where
  "summer_fest =
     \<lparr>event_name = py ''Summer Fest'', event_description = py ''Open air'',
      event_date = py ''2025-07-01'', event_venue_id = py ''main-hall'', event_max_attendees = 500\<rparr>"


definition db_with_event :: database where
  "db_with_event = empty_db\<lparr>db_events := [\<lparr>doc_id = 7, doc_fields = Event_model_dump summer_fest\<rparr>]\<rparr>"

definition id_seven :: pystr where
  "id_seven = py ''000000000000000000000007''"

definition id_nine :: pystr where
  "id_nine = py ''000000000000000000000009''"

definition id_malformed :: pystr where
  "id_malformed = py ''not-a-valid-id''"

definition poster_png :: UploadFile where
  "poster_png = \<lparr>filename = Some (py ''poster.png''), content_type = Some (py ''image/png''),
                   content = [137, 80, 78, 71, 1]\<rparr>"

definition poster_jpg :: UploadFile where
  "poster_jpg = \<lparr>filename = Some (py ''poster.jpg''), content_type = Some (py ''image/jpeg''),
                   content = [255, 216, 255, 2]\<rparr>"

definition media_one :: collection where
  "media_one = [\<lparr>doc_id = 1, doc_fields = media_fields ''event_id'' id_seven ''event_poster'' poster_png 1000\<rparr>]"

definition media_two :: collection where
  "media_two = media_one @
     [\<lparr>doc_id = 2, doc_fields = media_fields ''event_id'' id_seven ''event_poster'' poster_jpg 2000\<rparr>]"

definition db_malformed_owner :: database where
  "db_malformed_owner = empty_db\<lparr>db_media :=
     [\<lparr>doc_id = 1, doc_fields = media_fields ''event_id'' id_malformed ''event_poster'' poster_png 1000\<rparr>]\<rparr>"

text \<open>
  An attendee without a phone number, a venue and a booking, and the databases that hold
  each of them under the identifier 7.
\<close>

definition ada :: Attendee where
  "ada = \<lparr>attendee_name = py ''Ada'', attendee_email = py ''ada@example.org'', attendee_phone = None\<rparr>"

definition town_hall :: Venue where
  "town_hall = \<lparr>venue_name = py ''Town Hall'', venue_address = py ''1 Main St'', venue_capacity = 300\<rparr>"

definition two_tickets :: Booking where
  "two_tickets =
     \<lparr>booking_event_id = id_seven, booking_attendee_id = id_nine,
      booking_ticket_type = py ''VIP'', booking_quantity = 2\<rparr>"

definition db_with_attendee :: database where
  "db_with_attendee = empty_db\<lparr>db_attendees :=
     [\<lparr>doc_id = 7, doc_fields =
         [(''name'', BStr (py ''Ada'')), (''email'', BStr (py ''ada@example.org'')), (''phone'', BNull)]\<rparr>]\<rparr>"

definition db_with_venue :: database where
  "db_with_venue = empty_db\<lparr>db_venues :=
     [\<lparr>doc_id = 7, doc_fields =
         [(''name'', BStr (py ''Town Hall'')), (''address'', BStr (py ''1 Main St'')),
          (''capacity'', BInt 300)]\<rparr>]\<rparr>"

definition db_with_booking :: database where
  "db_with_booking = empty_db\<lparr>db_booking :=
     [\<lparr>doc_id = 7, doc_fields =
         [(''event_id'', BStr id_seven), (''attendee_id'', BStr id_nine),
          (''ticket_type'', BStr (py ''VIP'')), (''quantity'', BInt 2)]\<rparr>]\<rparr>"

text \<open>
  The media collection after a second poster upload that carries the same timestamp as the
  first, and after one that carries an earlier timestamp (the clock is the wall clock, read
  to the millisecond the store keeps); a video file; and the database after one upload of
  each kind under the malformed owner id.
\<close>

definition media_same_time :: collection where
  "media_same_time = media_one @
     [\<lparr>doc_id = 2, doc_fields = media_fields ''event_id'' id_seven ''event_poster'' poster_jpg 1000\<rparr>]"

definition media_clock_back :: collection where
  "media_clock_back = media_one @
     [\<lparr>doc_id = 2, doc_fields = media_fields ''event_id'' id_seven ''event_poster'' poster_jpg 999\<rparr>]"

definition promo_mp4 :: UploadFile where
  "promo_mp4 = \<lparr>filename = Some (py ''promo.mp4''), content_type = Some (py ''video/mp4''),
                  content = [0, 0, 0, 24, 102, 116, 121, 112]\<rparr>"

definition db_malformed_promo :: database where
  "db_malformed_promo = empty_db\<lparr>db_media :=
     [\<lparr>doc_id = 2, doc_fields = media_fields ''event_id'' id_malformed ''promo_video'' promo_mp4 1000\<rparr>]\<rparr>"

definition db_malformed_venue :: database where
  "db_malformed_venue = empty_db\<lparr>db_media :=
     [\<lparr>doc_id = 3, doc_fields = media_fields ''venue_id'' id_malformed ''venue_photo'' poster_jpg 1000\<rparr>]\<rparr>"

section \<open>Properties\<close>

subsection \<open>The matcher decides the blacklist\<close>

lemma search_from_iff:
  "search_from R prev s \<longleftrightarrow> (\<exists>pre t. s = pre @ t \<and> match_here R (last_of prev pre) t)"
proof (induction s arbitrary: prev)
  case Nil
  then show ?case by (simp add: last_of_def)
next
  case (Cons c cs)
  show ?case
  proof
    assume "search_from R prev (c # cs)"
    then consider "match_here R prev (c # cs)" | "search_from R (Some c) cs" by auto
    then show "\<exists>pre t. c # cs = pre @ t \<and> match_here R (last_of prev pre) t"
    proof cases
      case 1
      then have "c # cs = [] @ (c # cs) \<and> match_here R (last_of prev []) (c # cs)"
        by (simp add: last_of_def)
      then show ?thesis by blast
    next
      case 2
      then obtain pre t where pt: "cs = pre @ t" "match_here R (last_of (Some c) pre) t"
        using Cons.IH by blast
      then have "c # cs = (c # pre) @ t \<and> match_here R (last_of prev (c # pre)) t"
        by (cases pre) (simp_all add: last_of_def)
      then show ?thesis by blast
    qed
  next
    assume "\<exists>pre t. c # cs = pre @ t \<and> match_here R (last_of prev pre) t"
    then obtain pre t where pt: "c # cs = pre @ t" "match_here R (last_of prev pre) t" by blast
    show "search_from R prev (c # cs)"
    proof (cases pre)
      case Nil
      with pt have "match_here R prev (c # cs)" by (simp add: last_of_def)
      then show ?thesis by simp
    next
      case (Cons p ps)
      with pt have "cs = ps @ t" "p = c" by simp_all
      moreover from pt Cons have "match_here R (last_of (Some c) ps) t"
        by (simp add: last_of_def \<open>p = c\<close> split: if_splits)
      ultimately have "search_from R (Some c) cs" using Cons.IH by blast
      then show ?thesis by simp
    qed
  qed
qed

lemma ci_lit_iff:
  "ci_lit R kw prev s = Some (p, rest) \<longleftrightarrow>
     (\<exists>m. s = m @ rest \<and> map (to_lower R) m = kw \<and> p = last_of prev m)"
proof (induction R kw prev s rule: ci_lit.induct)
  case (1 R prev s)
  then show ?case by (auto simp: last_of_def)
next
  case (2 R l ls prev)
  then show ?case by auto
next
  case (3 R l ls prev c cs)
  show ?case
  proof (cases "to_lower R c = l")
    case False
    then show ?thesis by (auto simp: Cons_eq_append_conv)
  next
    case True
    have "(\<exists>m. c # cs = m @ rest \<and> map (to_lower R) m = l # ls \<and> p = last_of prev m)
       \<longleftrightarrow> (\<exists>m'. cs = m' @ rest \<and> map (to_lower R) m' = ls \<and> p = last_of (Some c) m')"
      (is "?L \<longleftrightarrow> ?Rr")
    proof
      assume ?L
      then obtain m where m: "c # cs = m @ rest" "map (to_lower R) m = l # ls" "p = last_of prev m"
        by (elim exE conjE)
      then obtain m' where m': "m = c # m'" by (cases m) auto
      with m have "cs = m' @ rest \<and> map (to_lower R) m' = ls \<and> p = last_of (Some c) m'"
        by (auto simp: last_of_def)
      then show ?Rr by (intro exI[of _ m'])
    next
      assume ?Rr
      then obtain m' where m': "cs = m' @ rest" "map (to_lower R) m' = ls" "p = last_of (Some c) m'"
        by (elim exE conjE)
      with True have "c # cs = (c # m') @ rest \<and> map (to_lower R) (c # m') = l # ls \<and> p = last_of prev (c # m')"
        by (auto simp: last_of_def)
      then show ?L by (intro exI[of _ "c # m'"])
    qed
    with True 3 show ?thesis by simp
  qed
qed

lemma digit_eq_digit_iff:
  "digit_eq_digit R t \<longleftrightarrow>
     (\<exists>a b post. t = [a, ord CHR ''='', b] @ post \<and> is_digit R a \<and> is_digit R b)"
  by (auto simp: digit_eq_digit_def split: list.splits)

lemma spaces_then_cmp_iff:
  "spaces_then_cmp R s \<longleftrightarrow>
     (\<exists>ws t. s = ws @ t \<and> ws \<noteq> [] \<and> (\<forall>c \<in> set ws. is_space R c) \<and> digit_eq_digit R t)"
proof (induction s)
  case Nil
  then show ?case by simp
next
  case (Cons c cs)
  show ?case
  proof
    assume "spaces_then_cmp R (c # cs)"
    then have sp: "is_space R c" and d: "spaces_then_cmp R cs \<or> digit_eq_digit R cs" by auto
    from d show "\<exists>ws t. c # cs = ws @ t \<and> ws \<noteq> [] \<and> (\<forall>c \<in> set ws. is_space R c) \<and> digit_eq_digit R t"
    proof
      assume "spaces_then_cmp R cs"
      then obtain ws t where "cs = ws @ t" "ws \<noteq> []" "\<forall>c \<in> set ws. is_space R c" "digit_eq_digit R t"
        using Cons.IH by blast
      with sp have "c # cs = (c # ws) @ t \<and> c # ws \<noteq> [] \<and> (\<forall>x \<in> set (c # ws). is_space R x) \<and> digit_eq_digit R t"
        by simp
      then show ?thesis by blast
    next
      assume "digit_eq_digit R cs"
      with sp have "c # cs = [c] @ cs \<and> [c] \<noteq> [] \<and> (\<forall>x \<in> set [c]. is_space R x) \<and> digit_eq_digit R cs"
        by simp
      then show ?thesis by blast
    qed
  next
    assume "\<exists>ws t. c # cs = ws @ t \<and> ws \<noteq> [] \<and> (\<forall>c \<in> set ws. is_space R c) \<and> digit_eq_digit R t"
    then obtain ws t where w: "c # cs = ws @ t" "ws \<noteq> []" "\<forall>c \<in> set ws. is_space R c" "digit_eq_digit R t"
      by blast
    then obtain ws' where ws': "ws = c # ws'" by (cases ws) auto
    with w have sp: "is_space R c" and cs: "cs = ws' @ t" and all': "\<forall>c \<in> set ws'. is_space R c" by auto
    show "spaces_then_cmp R (c # cs)"
    proof (cases ws')
      case Nil
      with cs w sp show ?thesis by simp
    next
      case (Cons a as)
      with cs all' w have "spaces_then_cmp R cs" using Cons.IH by blast
      with sp show ?thesis by simp
    qed
  qed
qed

lemma head_append_nonempty: "m \<noteq> [] \<Longrightarrow> head (m @ r) = Some (hd m)"
  by (cases m) (simp_all add: head_def)

lemma keyword_then_cmp_iff:
  assumes "kw \<noteq> []"
  shows "keyword_then_cmp R kw prev t \<longleftrightarrow>
     (\<exists>m ws a b post.
        t = m @ ws @ [a, ord CHR ''='', b] @ post \<and> map (to_lower R) m = kw \<and>
        boundary R (Some (last m)) (Some (hd ws)) \<and>
        ws \<noteq> [] \<and> (\<forall>c \<in> set ws. is_space R c) \<and> is_digit R a \<and> is_digit R b)"
  (is "?L \<longleftrightarrow> ?Rr")
proof
  assume ?L
  then obtain p rest where c: "ci_lit R kw prev t = Some (p, rest)"
    and b: "boundary R p (head rest)" and s: "spaces_then_cmp R rest"
    by (auto simp: keyword_then_cmp_def split: option.splits)
  from c obtain m where m: "t = m @ rest" "map (to_lower R) m = kw" "p = last_of prev m"
    unfolding ci_lit_iff by (elim exE conjE)
  with assms have mne: "m \<noteq> []" by auto
  from s obtain ws t' where ws: "rest = ws @ t'" "ws \<noteq> []" "\<forall>c \<in> set ws. is_space R c"
    "digit_eq_digit R t'"
    unfolding spaces_then_cmp_iff by (elim exE conjE)
  from ws(4) obtain a b' post where d: "t' = [a, ord CHR ''='', b'] @ post" "is_digit R a" "is_digit R b'"
    unfolding digit_eq_digit_iff by (elim exE conjE)
  from b m mne ws have "boundary R (Some (last m)) (Some (hd ws))"
    by (simp add: last_of_def head_append_nonempty)
  with m ws d have "t = m @ ws @ [a, ord CHR ''='', b'] @ post \<and> map (to_lower R) m = kw \<and>
        boundary R (Some (last m)) (Some (hd ws)) \<and>
        ws \<noteq> [] \<and> (\<forall>c \<in> set ws. is_space R c) \<and> is_digit R a \<and> is_digit R b'"
    by simp
  then show ?Rr by (intro exI)
next
  assume ?Rr
  then obtain m ws a b post where h: "t = m @ ws @ [a, ord CHR ''='', b] @ post"
     "map (to_lower R) m = kw" "boundary R (Some (last m)) (Some (hd ws))"
     "ws \<noteq> []" "\<forall>c \<in> set ws. is_space R c" "is_digit R a" "is_digit R b"
    by (elim exE conjE)
  with assms have mne: "m \<noteq> []" by auto
  let ?rest = "ws @ [a, ord CHR ''='', b] @ post"
  have "\<exists>m'. t = m' @ ?rest \<and> map (to_lower R) m' = kw \<and> Some (last m) = last_of prev m'"
    using h mne by (intro exI[of _ m]) (simp add: last_of_def)
  then have c: "ci_lit R kw prev t = Some (Some (last m), ?rest)"
    unfolding ci_lit_iff .
  have "digit_eq_digit R ([a, ord CHR ''='', b] @ post)"
    unfolding digit_eq_digit_iff using h by blast
  then have "\<exists>ws' t'. ?rest = ws' @ t' \<and> ws' \<noteq> [] \<and> (\<forall>c \<in> set ws'. is_space R c) \<and> digit_eq_digit R t'"
    using h by (intro exI[of _ ws] exI[of _ "[a, ord CHR ''='', b] @ post"]) simp
  then have s: "spaces_then_cmp R ?rest" unfolding spaces_then_cmp_iff .
  from h have "boundary R (Some (last m)) (head ?rest)"
    by (simp add: head_append_nonempty)
  with c s show ?L by (simp add: keyword_then_cmp_def)
qed

lemma py_or_nonempty: "py ''or'' \<noteq> []" "py ''and'' \<noteq> []"
  by (simp_all add: py_def)

lemma keyword_alt_iff:
  "(boundary R prev (head t) \<and>
     (keyword_then_cmp R (py ''or'') prev t \<or> keyword_then_cmp R (py ''and'') prev t))
   \<longleftrightarrow> keyword_here R prev t"
  (is "?L \<longleftrightarrow> ?Rr")
proof
  assume l: ?L
  then obtain k where k: "k = py ''or'' \<or> k = py ''and''" "keyword_then_cmp R k prev t" by blast
  then have kne: "k \<noteq> []" using py_or_nonempty by auto
  from k(2) obtain m ws a b post where h: "t = m @ ws @ [a, ord CHR ''='', b] @ post"
     "map (to_lower R) m = k" "boundary R (Some (last m)) (Some (hd ws))"
     "ws \<noteq> []" "\<forall>c \<in> set ws. is_space R c" "is_digit R a" "is_digit R b"
    unfolding keyword_then_cmp_iff[OF kne] by (elim exE conjE)
  with kne have mne: "m \<noteq> []" by auto
  with l h have "boundary R prev (Some (hd m))" by (simp add: head_append_nonempty)
  with h k(1) show ?Rr unfolding keyword_here_def by (intro exI[of _ m] exI[of _ ws] exI[of _ a] exI[of _ b] exI[of _ post]) simp
next
  assume ?Rr
  then obtain kw ws a b post where h: "t = kw @ ws @ [a, ord CHR ''='', b] @ post"
     "map (to_lower R) kw = py ''or'' \<or> map (to_lower R) kw = py ''and''"
     "boundary R prev (Some (hd kw))" "boundary R (Some (last kw)) (Some (hd ws))"
     "ws \<noteq> []" "\<forall>c \<in> set ws. is_space R c" "is_digit R a" "is_digit R b"
    unfolding keyword_here_def by (elim exE conjE)
  from h(2) have kne: "kw \<noteq> []" using py_or_nonempty by auto
  with h have b: "boundary R prev (head t)" by (simp add: head_append_nonempty)
  have ex: "\<exists>m ws a b post.
        t = m @ ws @ [a, ord CHR ''='', b] @ post \<and> map (to_lower R) m = map (to_lower R) kw \<and>
        boundary R (Some (last m)) (Some (hd ws)) \<and>
        ws \<noteq> [] \<and> (\<forall>c \<in> set ws. is_space R c) \<and> is_digit R a \<and> is_digit R b"
    using h by (intro exI[of _ kw] exI[of _ ws] exI[of _ a] exI[of _ b] exI[of _ post]) simp
  from h(2) show ?L
  proof
    assume o: "map (to_lower R) kw = py ''or''"
    with ex have "keyword_then_cmp R (py ''or'') prev t"
      unfolding keyword_then_cmp_iff[OF py_or_nonempty(1)] by simp
    with b show ?L by simp
  next
    assume o: "map (to_lower R) kw = py ''and''"
    with ex have "keyword_then_cmp R (py ''and'') prev t"
      unfolding keyword_then_cmp_iff[OF py_or_nonempty(2)] by simp
    with b show ?L by simp
  qed
qed

lemma symbol_prefix_iff:
  "(\<exists>c post. t = c # post \<and> c \<in> ord ` {CHR ''$'', CHR ''{'', CHR ''}'', CHR ''['', CHR '']'', CHR '';''}) \<longleftrightarrow>
     (prefix (py ''$'') t \<or> prefix (py ''{'') t \<or> prefix (py ''}'') t \<or>
      prefix (py ''['') t \<or> prefix (py '']'') t \<or> prefix (py '';'') t)"
  by (cases t) (auto simp: py_def)

lemma match_here_iff:
  "match_here R prev t \<longleftrightarrow>
     (\<exists>c post. t = c # post \<and> c \<in> ord ` {CHR ''$'', CHR ''{'', CHR ''}'', CHR ''['', CHR '']'', CHR '';''}) \<or>
     prefix (py ''--'') t \<or> prefix (py ''/*'') t \<or> prefix (py ''*/'') t \<or>
     keyword_here R prev t"
  unfolding match_here_def keyword_alt_iff symbol_prefix_iff
  by blast

lemma keyword_comparison_iff:
  "keyword_comparison R v \<longleftrightarrow> (\<exists>pre t. v = pre @ t \<and> keyword_here R (last_of None pre) t)"
proof
  assume "keyword_comparison R v"
  then obtain pre kw ws a b post where h:
    "v = pre @ kw @ ws @ [a, ord CHR ''='', b] @ post"
    "map (to_lower R) kw = py ''or'' \<or> map (to_lower R) kw = py ''and''"
    "boundary R (last_of None pre) (Some (hd kw))"
    "boundary R (Some (last kw)) (Some (hd ws))"
    "ws \<noteq> []" "\<forall>c \<in> set ws. is_space R c" "is_digit R a" "is_digit R b"
    unfolding keyword_comparison_def by (elim exE conjE)
  then have "keyword_here R (last_of None pre) (kw @ ws @ [a, ord CHR ''='', b] @ post)"
    unfolding keyword_here_def
    by (intro exI[of _ kw] exI[of _ ws] exI[of _ a] exI[of _ b] exI[of _ post]) simp
  with h(1) show "\<exists>pre t. v = pre @ t \<and> keyword_here R (last_of None pre) t"
    by (intro exI[of _ pre] exI[of _ "kw @ ws @ [a, ord CHR ''='', b] @ post"]) simp
next
  assume "\<exists>pre t. v = pre @ t \<and> keyword_here R (last_of None pre) t"
  then obtain pre t where pt: "v = pre @ t" "keyword_here R (last_of None pre) t"
    by (elim exE conjE)
  from pt(2) obtain kw ws a b post where h:
    "t = kw @ ws @ [a, ord CHR ''='', b] @ post"
    "map (to_lower R) kw = py ''or'' \<or> map (to_lower R) kw = py ''and''"
    "boundary R (last_of None pre) (Some (hd kw))"
    "boundary R (Some (last kw)) (Some (hd ws))"
    "ws \<noteq> []" "\<forall>c \<in> set ws. is_space R c" "is_digit R a" "is_digit R b"
    unfolding keyword_here_def by (elim exE conjE)
  with pt(1) show "keyword_comparison R v"
    unfolding keyword_comparison_def
    by (intro exI[of _ pre] exI[of _ kw] exI[of _ ws] exI[of _ a] exI[of _ b] exI[of _ post]) simp
qed

lemma sublist_iff_prefix_at: "sublist x v \<longleftrightarrow> (\<exists>pre t. v = pre @ t \<and> prefix x t)"
  unfolding sublist_def prefix_def by blast

lemma symbol_iff_at:
  "(\<exists>c \<in> set v. c \<in> S) \<longleftrightarrow> (\<exists>pre t. v = pre @ t \<and> (\<exists>c post. t = c # post \<and> c \<in> S))"
proof
  assume "\<exists>c \<in> set v. c \<in> S"
  then obtain c where c: "c \<in> set v" "c \<in> S" by blast
  then obtain pre post where "v = pre @ c # post" by (meson split_list)
  with c(2) show "\<exists>pre t. v = pre @ t \<and> (\<exists>c post. t = c # post \<and> c \<in> S)" by blast
next
  assume "\<exists>pre t. v = pre @ t \<and> (\<exists>c post. t = c # post \<and> c \<in> S)"
  then obtain pre c post where "v = pre @ c # post" "c \<in> S" by blast
  then show "\<exists>c \<in> set v. c \<in> S" by auto
qed

lemma search_iff_somewhere:
  "BLOCK_PATTERN_search R v \<longleftrightarrow>
     (\<exists>pre t. v = pre @ t \<and> (\<exists>c post. t = c # post \<and> c \<in> ord ` {CHR ''$'', CHR ''{'', CHR ''}'', CHR ''['', CHR '']'', CHR '';''})) \<or>
     (\<exists>pre t. v = pre @ t \<and> prefix (py ''--'') t) \<or>
     (\<exists>pre t. v = pre @ t \<and> prefix (py ''/*'') t) \<or>
     (\<exists>pre t. v = pre @ t \<and> prefix (py ''*/'') t) \<or>
     (\<exists>pre t. v = pre @ t \<and> keyword_here R (last_of None pre) t)"
  unfolding BLOCK_PATTERN_search_def search_from_iff match_here_iff
  by (simp only: conj_disj_distribL ex_disj_distrib)

lemma BLOCK_PATTERN_search_iff: "BLOCK_PATTERN_search R v \<longleftrightarrow> blacklisted R v"
  unfolding search_iff_somewhere blacklisted_def
  by (simp only: symbol_iff_at[symmetric] sublist_iff_prefix_at[symmetric] keyword_comparison_iff[symmetric])

lemma search_empty: "\<not> BLOCK_PATTERN_search R []"
  by (simp add: BLOCK_PATTERN_search_iff blacklisted_def keyword_comparison_def py_def)

lemma raise_invalid_input_within: "exc_frames R \<le> n \<Longrightarrow> raise_invalid_input R n = rejection"
  by (simp add: raise_invalid_input_def rejection_def)

lemma raise_invalid_input_cases:
  "raise_invalid_input R n = rejection \<or> raise_invalid_input R n = Inl RecursionError"
  by (simp add: raise_invalid_input_def rejection_def)

lemma foldr_max_ge: "x \<in> set xs \<Longrightarrow> x \<le> foldr max xs (0::nat)"
  by (induction xs) (auto simp: max_def)

lemma calls_needed_member:
  "x \<in> set xs \<Longrightarrow> Suc (calls_needed x) \<le> calls_needed (JList xs)"
  "kv \<in> set kvs \<Longrightarrow> Suc (calls_needed (snd kv)) \<le> calls_needed (JDict kvs)"
  by (simp_all add: foldr_max_ge)

lemma sanitize_within_aux:
  "calls_needed p + exc_frames R \<le> n \<Longrightarrow>
     sanitize_payload R n p = (if offending R p then rejection else Inr ())"
  "exc_frames R \<le> n \<Longrightarrow> (\<forall>kv \<in> set kvs. Suc (calls_needed (snd kv)) + exc_frames R \<le> n) \<Longrightarrow>
     sanitize_items R n kvs =
       (if (\<exists>kv \<in> set kvs. reserved_key (fst kv) \<or> offending R (snd kv)) then rejection else Inr ())"
  "(\<forall>x \<in> set xs. Suc (calls_needed x) + exc_frames R \<le> n) \<Longrightarrow>
     sanitize_elems R n xs = (if (\<exists>x \<in> set xs. offending R x) then rejection else Inr ())"
proof (induction R n p and R n kvs and R n xs rule: sanitize_payload_sanitize_items_sanitize_elems.induct)
  case (1 R n kvs)
  have "\<forall>kv \<in> set kvs. Suc (calls_needed (snd kv)) + exc_frames R \<le> n"
  proof
    fix kv assume "kv \<in> set kvs"
    then have "Suc (calls_needed (snd kv)) \<le> calls_needed (JDict kvs)" by (rule calls_needed_member)
    with 1(2) show "Suc (calls_needed (snd kv)) + exc_frames R \<le> n" by simp
  qed
  moreover from 1(2) have "exc_frames R \<le> n" by simp
  ultimately have "sanitize_items R n kvs =
       (if (\<exists>kv \<in> set kvs. reserved_key (fst kv) \<or> offending R (snd kv)) then rejection else Inr ())"
    by (rule 1(1)[rotated])
  then show ?case by (auto simp: offending_def)
next
  case (2 R n xs)
  have "\<forall>x \<in> set xs. Suc (calls_needed x) + exc_frames R \<le> n"
  proof
    fix x assume "x \<in> set xs"
    then have "Suc (calls_needed x) \<le> calls_needed (JList xs)" by (rule calls_needed_member)
    with 2(2) show "Suc (calls_needed x) + exc_frames R \<le> n" by simp
  qed
  then have "sanitize_elems R n xs = (if (\<exists>x \<in> set xs. offending R x) then rejection else Inr ())"
    by (rule 2(1))
  then show ?case by (auto simp: offending_def)
next
  case (3 R n s)
  then have n: "n \<noteq> 0" "exc_frames R \<le> n - 1" by simp_all
  show ?case
    using n search_empty[of R]
    by (auto simp: scan_for_injection_def raise_invalid_input_within offending_def)
next
  case (9 R n k v kvs)
  show ?case
  proof (cases "ord CHR ''$'' \<in> set k \<or> ord CHR ''.'' \<in> set k")
    case True
    with 9(3) show ?thesis
      by (auto simp: raise_invalid_input_within reserved_key_def)
  next
    case False
    from 9(4) have n: "n \<noteq> 0" "calls_needed v + exc_frames R \<le> n - 1" by auto
    from 9(1)[OF False n] have v: "sanitize_payload R (n - 1) v = (if offending R v then rejection else Inr ())" .
    show ?thesis
    proof (cases "offending R v")
      case True
      with False n v show ?thesis by (auto simp: rejection_def)
    next
      case off: False
      with n v have i: "(if n = 0 then Inl RecursionError else sanitize_payload R (n - 1) v) = Inr ()" by simp
      from 9(4) have rest: "\<forall>kv\<in>set kvs. Suc (calls_needed (snd kv)) + exc_frames R \<le> n" by simp
      have "sanitize_items R n kvs =
        (if (\<exists>kv \<in> set kvs. reserved_key (fst kv) \<or> offending R (snd kv)) then rejection else Inr ())"
        by (rule 9(2)[OF False i 9(3) rest])
      with i False off show ?thesis by (auto simp: reserved_key_def)
    qed
  qed
next
  case (11 R n item items)
  from 11(3) have n: "n \<noteq> 0" "calls_needed item + exc_frames R \<le> n - 1" by auto
  from 11(1)[OF n] have v: "sanitize_payload R (n - 1) item = (if offending R item then rejection else Inr ())" .
  show ?case
  proof (cases "offending R item")
    case True
    with n v show ?thesis by (auto simp: rejection_def)
  next
    case off: False
    with n v have i: "(if n = 0 then Inl RecursionError else sanitize_payload R (n - 1) item) = Inr ()" by simp
    from 11(3) have rest: "\<forall>x\<in>set items. Suc (calls_needed x) + exc_frames R \<le> n" by simp
    have "sanitize_elems R n items = (if (\<exists>x \<in> set items. offending R x) then rejection else Inr ())"
      by (rule 11(2)[OF i rest])
    with i off show ?thesis by auto
  qed
qed (simp_all add: offending_def)


lemma sanitize_within:
  "calls_needed p + exc_frames R \<le> n \<Longrightarrow>
     sanitize_payload R n p = (if offending R p then rejection else Inr ())"
  by (rule sanitize_within_aux(1))

lemma sanitize_outcomes:
  "sanitize_payload R n p = Inr () \<or> sanitize_payload R n p = Inl RecursionError \<or>
     (sanitize_payload R n p = rejection \<and> offending R p)"
  "sanitize_items R n kvs = Inr () \<or> sanitize_items R n kvs = Inl RecursionError \<or>
     (sanitize_items R n kvs = rejection \<and>
      (\<exists>kv \<in> set kvs. reserved_key (fst kv) \<or> offending R (snd kv)))"
  "sanitize_elems R n xs = Inr () \<or> sanitize_elems R n xs = Inl RecursionError \<or>
     (sanitize_elems R n xs = rejection \<and> (\<exists>x \<in> set xs. offending R x))"
proof (induction R n p and R n kvs and R n xs rule: sanitize_payload_sanitize_items_sanitize_elems.induct)
  case (1 R n kvs)
  then show ?case by (auto simp: offending_def)
next
  case (2 R n xs)
  then show ?case by (auto simp: offending_def)
next
  case (3 R n s)
  show ?case
    using raise_invalid_input_cases[of R "n - 1"]
    by (auto simp: scan_for_injection_def offending_def)
next
  case (9 R n k v kvs)
  show ?case
  proof (cases "ord CHR ''$'' \<in> set k \<or> ord CHR ''.'' \<in> set k")
    case True
    then show ?thesis
      using raise_invalid_input_cases[of R n] by (auto simp: reserved_key_def)
  next
    case False
    show ?thesis
    proof (cases "n = 0")
      case True
      with False show ?thesis by simp
    next
      case n: False
      from 9(1)[OF False n] consider
          (ok) "sanitize_payload R (n - 1) v = Inr ()"
        | (deep) "sanitize_payload R (n - 1) v = Inl RecursionError"
        | (hit) "sanitize_payload R (n - 1) v = rejection" "offending R v"
        by blast
      then show ?thesis
      proof cases
        case ok
        with n have i: "(if n = 0 then Inl RecursionError else sanitize_payload R (n - 1) v) = Inr ()"
          by simp
        from 9(2)[OF False i] i False show ?thesis by auto
      next
        case deep
        with False n show ?thesis by simp
      next
        case hit
        with False n show ?thesis by (auto simp: rejection_def)
      qed
    qed
  qed
next
  case (11 R n item items)
  show ?case
  proof (cases "n = 0")
    case True
    then show ?thesis by simp
  next
    case n: False
    from 11(1)[OF n] consider
        (ok) "sanitize_payload R (n - 1) item = Inr ()"
      | (deep) "sanitize_payload R (n - 1) item = Inl RecursionError"
      | (hit) "sanitize_payload R (n - 1) item = rejection" "offending R item"
      by blast
    then show ?thesis
    proof cases
      case ok
      with n have i: "(if n = 0 then Inl RecursionError else sanitize_payload R (n - 1) item) = Inr ()"
        by simp
      from 11(2)[OF i] i show ?thesis by auto
    next
      case deep
      with n show ?thesis by simp
    next
      case hit
      with n show ?thesis by (auto simp: rejection_def)
    qed
  qed
qed simp_all

lemma guard_body_within:
  assumes "json_loads R body = Some payload" and "within_limit R payload"
  shows "guard_body R body = (if offending R payload then rejection else Inr ())"
proof -
  from assms(2) have "frames R \<noteq> 0" "calls_needed payload + exc_frames R \<le> frames R - 1"
    by (simp_all add: within_limit_def)
  with assms(1) show ?thesis by (simp add: guard_body_def sanitize_within)
qed

lemma guard_body_outcomes:
  "guard_body R body = Inr () \<or> guard_body R body = Inl RecursionError \<or>
     (guard_body R body = rejection \<and>
      (\<exists>payload. json_loads R body = Some payload \<and> offending R payload))"
proof (cases "json_loads R body")
  case None
  then show ?thesis by (simp add: guard_body_def)
next
  case (Some payload)
  with sanitize_outcomes(1)[of R "frames R - 1" payload] show ?thesis
    by (auto simp: guard_body_def)
qed

lemma sanitize_nested_deep: "n < k \<Longrightarrow> sanitize_payload R n (nested k p) = Inl RecursionError"
proof (induction k arbitrary: n)
  case 0
  then show ?case by simp
next
  case (Suc k)
  show ?case
  proof (cases "n = 0")
    case True
    then show ?thesis by simp
  next
    case False
    with Suc.prems have "n - 1 < k" by simp
    then have "sanitize_payload R (n - 1) (nested k p) = Inl RecursionError" by (rule Suc.IH)
    with False show ?thesis by simp
  qed
qed

lemma all_keys_nested: "all_keys (nested k p) = all_keys p"
  by (induction k) simp_all

subsection \<open>The guard on a whole request\<close>

lemmas eval_defs = demo_loads_def demo_runtime_def demo_request_def echo_handler_def
  ascii_runtime_def py_def ord_def request_body_def content_type_of_def
  injection_protection_middleware_def guard_body_def raise_invalid_input_def
  scan_for_injection_def

lemmas app_defs = app_def exception_handlers_def server_error_layer_def

lemmas matcher_defs = BLOCK_PATTERN_search_def match_here_def keyword_then_cmp_def boundary_def
  word_at_def head_def is_word_def is_space_def is_digit_def to_lower_def digit_eq_digit_def

lemma middleware_rejects:
  assumes "http_method req \<in> {py ''POST'', py ''PUT'', py ''PATCH''}"
    and "str_in (py ''application/json'') (content_type_of req)"
    and "request_body req \<noteq> []"
    and "json_loads R (request_body req) = Some payload"
    and "within_limit R payload"
    and "offending R payload"
  shows "injection_protection_middleware R req call_next s =
           (Inl (HTTPException 400 ''Invalid input detected''), s)"
  using assms(1-3,6) guard_body_within[OF assms(4,5)]
  by (simp add: injection_protection_middleware_def Let_def rejection_def)

lemma middleware_swallows:
  assumes "guard_body R (request_body req) = Inl RecursionError"
    and "http_method req \<in> {py ''POST'', py ''PUT'', py ''PATCH''}"
    and "str_in (py ''application/json'') (content_type_of req)"
    and "request_body req \<noteq> []"
  shows "injection_protection_middleware R req call_next s =
           call_next (req\<lparr>receive := [request_body req]\<rparr>) s"
  using assms by (simp add: injection_protection_middleware_def Let_def)

lemma app_of_raise:
  assumes "injection_protection_middleware R req (exception_handlers route) s = (Inl e, s')"
  shows "app R route req s = (ErrorAnswer 500 ''Internal Server Error'', s')"
  using assms by (simp add: app_def server_error_layer_def)

lemma middleware_passes:
  assumes "\<And>payload. json_loads R (request_body req) = Some payload \<Longrightarrow> \<not> offending R payload"
  shows "\<exists>req'. injection_protection_middleware R req call_next s = call_next req' s \<and>
           request_body req' = request_body req \<and> http_method req' = http_method req \<and>
           headers req' = headers req"
proof (cases "http_method req \<in> {py ''POST'', py ''PUT'', py ''PATCH''} \<and>
         str_in (py ''application/json'') (content_type_of req) \<and> request_body req \<noteq> []")
  case False
  then have "injection_protection_middleware R req call_next s = call_next req s"
    by (auto simp: injection_protection_middleware_def Let_def)
  then show ?thesis by blast
next
  case True
  let ?req' = "req\<lparr>receive := [request_body req]\<rparr>"
  from guard_body_outcomes[of R "request_body req"] assms
  have "guard_body R (request_body req) = Inr () \<or> guard_body R (request_body req) = Inl RecursionError"
    by blast
  with True have "injection_protection_middleware R req call_next s = call_next ?req' s"
    by (auto simp: injection_protection_middleware_def Let_def)
  moreover have "request_body ?req' = request_body req" by (simp add: request_body_def)
  ultimately show ?thesis by (intro exI[of _ ?req']) simp
qed

text \<open>
  Claim C1, as the specification states it, has the guard match object keys against the
  blacklist pattern as well. It does not: the body \<^verbatim>\<open>{"a;b": 1}\<close> of a POST request
  with a JSON content type parses, its key \<^verbatim>\<open>a;b\<close> is blacklisted (it holds a
  semicolon), and the request still reaches the handler, which is called once and reads
  the body; the client is answered by the handler, with status 200.
\<close>

theorem guard_does_not_match_keys_counterexample:
  "py ''a;b'' \<in> all_keys payload_semicolon_key \<and>
   blacklisted (demo_runtime body_semicolon_key payload_semicolon_key) (py ''a;b'') \<and>
   http_method (demo_request body_semicolon_key) = py ''POST'' \<and>
   content_type_of (demo_request body_semicolon_key) = py ''application/json'' \<and>
   json_loads (demo_runtime body_semicolon_key payload_semicolon_key)
     (request_body (demo_request body_semicolon_key)) = Some payload_semicolon_key \<and>
   injection_protection_middleware (demo_runtime body_semicolon_key payload_semicolon_key)
     (demo_request body_semicolon_key) echo_handler 0 = (Inr body_semicolon_key, 1) \<and>
   app (demo_runtime body_semicolon_key payload_semicolon_key) echo_handler
     (demo_request body_semicolon_key) 0 = (Answer body_semicolon_key, 1) \<and>
   status (Answer body_semicolon_key) = 200"
proof -
  have "ord CHR '';'' \<in> set (py ''a;b'')" by (simp add: py_def)
  then have "blacklisted (demo_runtime body_semicolon_key payload_semicolon_key) (py ''a;b'')"
    unfolding blacklisted_def by blast
  moreover have "injection_protection_middleware (demo_runtime body_semicolon_key payload_semicolon_key)
     (demo_request body_semicolon_key) echo_handler 0 = (Inr body_semicolon_key, 1)"
    by (simp add: eval_defs body_semicolon_key_def payload_semicolon_key_def)
  moreover have "app (demo_runtime body_semicolon_key payload_semicolon_key) echo_handler
     (demo_request body_semicolon_key) 0 = (Answer body_semicolon_key, 1)"
    by (simp add: eval_defs app_defs body_semicolon_key_def payload_semicolon_key_def)
  ultimately show ?thesis
    by (simp add: eval_defs body_semicolon_key_def payload_semicolon_key_def)
qed

text \<open>
  Claim C1, amended: for every POST, PUT or PATCH request whose content type contains
  \<^verbatim>\<open>application/json\<close> and whose body is not empty and parses as JSON into a structure
  nested no deeper than the interpreter's call stack allows (\<open>within_limit\<close>), if any
  string value of the parsed structure, at any depth inside objects and arrays, is
  blacklisted (it holds one of \<^verbatim>\<open>$ { } [ ] ;\<close>, or \<^verbatim>\<open>--\<close>, \<^verbatim>\<open>/*\<close>, \<^verbatim>\<open>*/\<close>, or
  the token OR or AND in any case followed by spaces and a digit=digit comparison), the
  request is refused before the route handler runs: whatever the rest of the application
  is, the middleware raises \<^verbatim>\<open>HTTPException(400, "Invalid input detected")\<close> without
  calling it, the state of the application is untouched, and the client receives an error
  answer instead of the handler's. Object keys are not matched against the pattern; they
  are only checked for \<^verbatim>\<open>$\<close> and \<^verbatim>\<open>.\<close>. Which status code the client is sent, and what
  happens to a structure nested deeper than the call stack allows, is the subject of
  claim C2 and is left open here. By \<open>BLOCK_PATTERN_search_iff\<close> the blacklist of the
  specification is exactly what the compiled pattern finds.
\<close>

theorem guard_rejects_blacklisted_string_value:
  assumes "http_method req \<in> {py ''POST'', py ''PUT'', py ''PATCH''}"
    and "str_in (py ''application/json'') (content_type_of req)"
    and "request_body req \<noteq> []"
    and "json_loads R (request_body req) = Some payload"
    and "within_limit R payload"
    and "v \<in> string_values payload"
    and "blacklisted R v"
  shows "injection_protection_middleware R req call_next s =
           (Inl (HTTPException 400 ''Invalid input detected''), s) \<and>
         (\<exists>c d. app R route req s = (ErrorAnswer c d, s))"
proof -
  from assms(6,7) have off: "offending R payload"
    unfolding offending_def BLOCK_PATTERN_search_iff by blast
  have m: "injection_protection_middleware R req call_next s =
           (Inl (HTTPException 400 ''Invalid input detected''), s)"
    using assms(1-5) off by (rule middleware_rejects)
  have "injection_protection_middleware R req (exception_handlers route) s =
           (Inl (HTTPException 400 ''Invalid input detected''), s)"
    using assms(1-5) off by (rule middleware_rejects)
  then have "app R route req s = (ErrorAnswer 500 ''Internal Server Error'', s)"
    by (rule app_of_raise)
  with m show ?thesis by simp
qed

theorem guard_rejects_blacklisted_string_value_witness:
  "http_method (demo_request body_or_value) \<in> {py ''POST'', py ''PUT'', py ''PATCH''} \<and>
   str_in (py ''application/json'') (content_type_of (demo_request body_or_value)) \<and>
   request_body (demo_request body_or_value) \<noteq> [] \<and>
   json_loads (demo_runtime body_or_value payload_or_value) (request_body (demo_request body_or_value))
     = Some payload_or_value \<and>
   within_limit (demo_runtime body_or_value payload_or_value) payload_or_value \<and>
   py ''1 OR 1=1'' \<in> string_values payload_or_value \<and>
   blacklisted (demo_runtime body_or_value payload_or_value) (py ''1 OR 1=1'') \<and>
   injection_protection_middleware (demo_runtime body_or_value payload_or_value)
     (demo_request body_or_value) echo_handler 0 = (Inl (HTTPException 400 ''Invalid input detected''), 0) \<and>
   snd (app (demo_runtime body_or_value payload_or_value) echo_handler (demo_request body_or_value) 0) = 0 \<and>
   fst (app (demo_runtime body_or_value payload_or_value) echo_handler (demo_request body_or_value) 0)
     \<noteq> Answer body_or_value"
proof -
  have h1: "http_method (demo_request body_or_value) \<in> {py ''POST'', py ''PUT'', py ''PATCH''}"
    by (simp add: demo_request_def)
  have h2: "str_in (py ''application/json'') (content_type_of (demo_request body_or_value))"
    by (simp add: demo_request_def content_type_of_def py_def ord_def)
  have h3: "request_body (demo_request body_or_value) \<noteq> []"
    by (simp add: demo_request_def request_body_def body_or_value_def)
  have h4: "json_loads (demo_runtime body_or_value payload_or_value)
      (request_body (demo_request body_or_value)) = Some payload_or_value"
    by (simp add: demo_request_def request_body_def demo_runtime_def ascii_runtime_def demo_loads_def)
  have h5: "within_limit (demo_runtime body_or_value payload_or_value) payload_or_value"
    by (simp add: within_limit_def payload_or_value_def demo_runtime_def ascii_runtime_def)
  have h6: "py ''1 OR 1=1'' \<in> string_values payload_or_value"
    by (simp add: payload_or_value_def)
  have "BLOCK_PATTERN_search (demo_runtime body_or_value payload_or_value) (py ''1 OR 1=1'')"
    by (simp add: matcher_defs demo_runtime_def ascii_runtime_def py_def ord_def)
  then have h7: "blacklisted (demo_runtime body_or_value payload_or_value) (py ''1 OR 1=1'')"
    by (simp add: BLOCK_PATTERN_search_iff)
  from guard_rejects_blacklisted_string_value[OF h1 h2 h3 h4 h5 h6 h7, of echo_handler 0 echo_handler]
    h1 h2 h3 h4 h5 h6 h7
  show ?thesis by auto
qed

text \<open>
  Claim C2 has a request whose JSON body holds a key with \<^verbatim>\<open>$\<close> or \<^verbatim>\<open>.\<close> rejected with
  HTTP 400. The program does not answer 400. The guard is registered with
  \<^verbatim>\<open>@app.middleware("http")\<close>, so its \<^verbatim>\<open>raise HTTPException(status_code=400, ...)\<close>
  happens outside the layer that turns an \<^verbatim>\<open>HTTPException\<close> into its response, and the
  outermost layer answers 500: the POST request with body \<^verbatim>\<open>{"a": {"b.c": 1}}\<close>, whose
  nested key \<^verbatim>\<open>b.c\<close> holds a dot, is answered 500 Internal Server Error, the handler not
  being called. And a reserved key is not rejected at every depth: for the body that wraps
  \<^verbatim>\<open>{"$w": 1}\<close> in one thousand arrays, the walk runs out of stack frames, the
  \<^verbatim>\<open>RecursionError\<close> is swallowed by \<^verbatim>\<open>except Exception: pass\<close>, and the handler is
  called and answers. (A parser that itself gives up on such nesting raises inside the same
  \<^verbatim>\<open>try\<close>, and the request reaches the handler just the same.)
\<close>

theorem guard_reserved_key_not_answered_400:
  "py ''b.c'' \<in> all_keys payload_dotted_key \<and> reserved_key (py ''b.c'') \<and>
   http_method (demo_request body_dotted_key) = py ''POST'' \<and>
   content_type_of (demo_request body_dotted_key) = py ''application/json'' \<and>
   json_loads (demo_runtime body_dotted_key payload_dotted_key)
     (request_body (demo_request body_dotted_key)) = Some payload_dotted_key \<and>
   injection_protection_middleware (demo_runtime body_dotted_key payload_dotted_key)
     (demo_request body_dotted_key) (exception_handlers echo_handler) 0
     = (Inl (HTTPException 400 ''Invalid input detected''), 0) \<and>
   app (demo_runtime body_dotted_key payload_dotted_key) echo_handler
     (demo_request body_dotted_key) 0 = (ErrorAnswer 500 ''Internal Server Error'', 0) \<and>
   status (ErrorAnswer 500 ''Internal Server Error'') = 500 \<and>
   py ''$w'' \<in> all_keys payload_deep \<and> reserved_key (py ''$w'') \<and>
   json_loads (demo_runtime body_deep payload_deep)
     (request_body (demo_request body_deep)) = Some payload_deep \<and>
   app (demo_runtime body_deep payload_deep) echo_handler (demo_request body_deep) 0
     = (Answer body_deep, 1)"
proof -
  have a: "injection_protection_middleware (demo_runtime body_dotted_key payload_dotted_key)
     (demo_request body_dotted_key) (exception_handlers echo_handler) 0
     = (Inl (HTTPException 400 ''Invalid input detected''), 0)"
    by (simp add: eval_defs body_dotted_key_def payload_dotted_key_def)
  have b: "guard_body (demo_runtime body_deep payload_deep) (request_body (demo_request body_deep))
      = Inl RecursionError"
    by (simp add: guard_body_def demo_runtime_def ascii_runtime_def demo_loads_def
        demo_request_def request_body_def payload_deep_def sanitize_nested_deep)
  have c: "request_body (demo_request body_deep) = body_deep"
    by (simp add: demo_request_def request_body_def)
  have "body_deep \<noteq> []" by (simp add: body_deep_def)
  with c have "injection_protection_middleware (demo_runtime body_deep payload_deep)
      (demo_request body_deep) (exception_handlers echo_handler) 0
      = exception_handlers echo_handler ((demo_request body_deep)\<lparr>receive := [body_deep]\<rparr>) 0"
    using middleware_swallows[OF b, of "exception_handlers echo_handler" 0]
    by (simp add: demo_request_def content_type_of_def py_def ord_def)
  then have d: "app (demo_runtime body_deep payload_deep) echo_handler (demo_request body_deep) 0
     = (Answer body_deep, 1)"
    by (simp add: app_defs echo_handler_def request_body_def)
  have e: "py ''$w'' \<in> all_keys payload_deep"
    by (simp add: payload_deep_def all_keys_nested)
  from a d e show ?thesis
    by (simp add: app_of_raise reserved_key_def py_def payload_dotted_key_def
        demo_runtime_def ascii_runtime_def demo_loads_def demo_request_def request_body_def
        content_type_of_def)
qed

text \<open>
  Claim C3: the guard rejects only on a match. For every request, if the body does not
  parse as JSON, or parses into a payload with no key containing \<^verbatim>\<open>$\<close> or \<^verbatim>\<open>.\<close> and no
  blacklisted string value, the middleware returns what the handler returns, and the
  request it hands to the handler has the same body, the same method and the same headers.
\<close>

theorem guard_passes_unparsed_and_benign:
  assumes "case json_loads R (request_body req) of None \<Rightarrow> True | Some payload \<Rightarrow> benign R payload"
  shows "\<exists>req'. injection_protection_middleware R req call_next s = call_next req' s \<and>
           request_body req' = request_body req \<and> http_method req' = http_method req \<and>
           headers req' = headers req"
proof (rule middleware_passes)
  fix payload
  assume "json_loads R (request_body req) = Some payload"
  with assms have "benign R payload" by simp
  then show "\<not> offending R payload"
    unfolding benign_def offending_def BLOCK_PATTERN_search_iff by blast
qed

theorem guard_passes_unparsed_and_benign_witness:
  "(case json_loads (ascii_runtime loads_nothing) (request_body (demo_request body_not_json)) of
      None \<Rightarrow> True | Some payload \<Rightarrow> benign (ascii_runtime loads_nothing) payload) \<and>
   injection_protection_middleware (ascii_runtime loads_nothing) (demo_request body_not_json)
     echo_handler 0 = (Inr body_not_json, 1) \<and>
   (case json_loads (demo_runtime body_benign payload_benign) (request_body (demo_request body_benign)) of
      None \<Rightarrow> True | Some payload \<Rightarrow> benign (demo_runtime body_benign payload_benign) payload) \<and>
   json_loads (demo_runtime body_benign payload_benign) (request_body (demo_request body_benign))
     = Some payload_benign \<and>
   injection_protection_middleware (demo_runtime body_benign payload_benign) (demo_request body_benign)
     echo_handler 0 = (Inr body_benign, 1)"
proof -
  have a: "case json_loads (ascii_runtime loads_nothing) (request_body (demo_request body_not_json)) of
      None \<Rightarrow> True | Some payload \<Rightarrow> benign (ascii_runtime loads_nothing) payload"
    by (simp add: ascii_runtime_def loads_nothing_def)
  have l: "json_loads (demo_runtime body_benign payload_benign) (request_body (demo_request body_benign))
     = Some payload_benign"
    by (simp add: demo_request_def request_body_def demo_runtime_def ascii_runtime_def demo_loads_def)
  have "\<not> BLOCK_PATTERN_search (demo_runtime body_benign payload_benign) (py ''Summer Fest'')"
    by (simp add: matcher_defs demo_runtime_def ascii_runtime_def py_def ord_def)
  then have "benign (demo_runtime body_benign payload_benign) payload_benign"
    by (simp add: benign_def BLOCK_PATTERN_search_iff[symmetric] payload_benign_def reserved_key_def py_def ord_def)
  with l have b: "case json_loads (demo_runtime body_benign payload_benign) (request_body (demo_request body_benign)) of
      None \<Rightarrow> True | Some payload \<Rightarrow> benign (demo_runtime body_benign payload_benign) payload"
    by simp
  have ra: "injection_protection_middleware (ascii_runtime loads_nothing) (demo_request body_not_json)
     echo_handler 0 = (Inr body_not_json, 1)"
    using guard_passes_unparsed_and_benign[OF a, of echo_handler 0] by (auto simp: echo_handler_def request_body_def demo_request_def)
  have rb: "injection_protection_middleware (demo_runtime body_benign payload_benign) (demo_request body_benign)
     echo_handler 0 = (Inr body_benign, 1)"
    using guard_passes_unparsed_and_benign[OF b, of echo_handler 0] by (auto simp: echo_handler_def request_body_def demo_request_def)
  from a b l ra rb show ?thesis by simp
qed

subsection \<open>The identifier codec\<close>

lemma hex_value_hex_digit: "n < 16 \<Longrightarrow> hex_value (hex_digit n) = Some n"
  by (auto simp: hex_value_def hex_digit_def)

lemma from_hex_snoc:
  "from_hex acc (xs @ [c]) =
     (case from_hex acc xs of None \<Rightarrow> None
      | Some v \<Rightarrow> (case hex_value c of None \<Rightarrow> None | Some d \<Rightarrow> Some (16 * v + d)))"
  by (induction xs arbitrary: acc) (auto split: option.splits)

lemma from_hex_to_hex: "from_hex 0 (to_hex k n) = Some (n mod 16 ^ k)"
proof (induction k arbitrary: n)
  case 0
  then show ?case by simp
next
  case (Suc k)
  have "n mod (16 * 16 ^ k) = 16 * (n div 16 mod 16 ^ k) + n mod 16"
    by (rule mod_mult2_eq)
  with Suc show ?case
    by (simp add: from_hex_snoc hex_value_hex_digit)
qed

lemma length_to_hex: "length (to_hex k n) = k"
  by (induction k arbitrary: n) simp_all

lemma ObjectId_str_of_oid: "ObjectId (str_of_oid i) = Some i"
proof -
  have "unat i < 16 ^ 24" using unsigned_less[of i] by simp
  then show ?thesis
    by (simp add: ObjectId_def str_of_oid_def length_to_hex from_hex_to_hex)
qed

lemma from_hex_None: "from_hex acc s = None \<longleftrightarrow> (\<exists>c \<in> set s. hex_value c = None)"
  by (induction s arbitrary: acc) (auto split: option.splits)

lemma ObjectId_None_iff: "ObjectId s = None \<longleftrightarrow> \<not> hex24 s"
  by (auto simp: ObjectId_def hex24_def from_hex_None)

lemma hex24_str_of_oid: "hex24 (str_of_oid i)"
  using ObjectId_str_of_oid[of i] ObjectId_None_iff[of "str_of_oid i"] by simp

subsection \<open>The collection operations\<close>

lemma find_one_by_id_None: "find_one_by_id i c = None \<longleftrightarrow> i \<notin> ids c"
  by (induction c) (auto simp: ids_def)

lemma find_one_by_id_append:
  "find_one_by_id i (c @ c') =
     (case find_one_by_id i c of Some d \<Rightarrow> Some d | None \<Rightarrow> find_one_by_id i c')"
  by (induction c) auto

lemma find_after_insert:
  assumes "i \<notin> ids c"
  shows "find_one_by_id i (c @ [\<lparr>doc_id = i, doc_fields = f\<rparr>]) = Some \<lparr>doc_id = i, doc_fields = f\<rparr>"
  using assms by (simp add: find_one_by_id_append find_one_by_id_None[symmetric])

lemma oid_str_of_oid: "oid (str_of_oid i) = Inr i"
  by (simp add: oid_def ObjectId_str_of_oid)

lemma oid_malformed: "\<not> hex24 s \<Longrightarrow> oid s = Inl (HTTPException 400 ''Invalid id format'')"
  by (simp add: oid_def ObjectId_None_iff[symmetric])

lemma hex24_ObjectId: "hex24 s \<Longrightarrow> \<exists>i. ObjectId s = Some i"
  using ObjectId_None_iff[of s] by auto





lemma delete_one_absent: "i \<notin> ids c \<Longrightarrow> delete_one i c = (0, c)"
  by (induction c) (auto simp: ids_def)

lemma delete_one_present:
  "i \<in> ids c \<Longrightarrow> distinct (map doc_id c) \<Longrightarrow>
     \<exists>c'. delete_one i c = (1, c') \<and> ids c' = ids c - {i} \<and> distinct (map doc_id c')"
proof (induction c)
  case Nil
  then show ?case by (simp add: ids_def)
next
  case (Cons x xs)
  show ?case
  proof (cases "doc_id x = i")
    case True
    with Cons.prems show ?thesis by (auto simp: ids_def)
  next
    case False
    with Cons.prems have "i \<in> ids xs" "distinct (map doc_id xs)" by (auto simp: ids_def)
    from Cons.IH[OF this] obtain c' where c': "delete_one i xs = (1, c')" "ids c' = ids xs - {i}"
      "distinct (map doc_id c')" by blast
    with False Cons.prems show ?thesis by (auto simp: ids_def)
  qed
qed

lemma first_greatest_None: "first_greatest key ds = None \<longleftrightarrow> ds = []"
  by (induction ds) (auto split: option.splits)

lemma date_less_total: "\<not> date_less a b \<Longrightarrow> \<not> date_less b c \<Longrightarrow> \<not> date_less a c"
  by (auto simp: date_less_def split: option.splits)

lemma date_less_irrefl: "\<not> date_less a a"
  by (auto simp: date_less_def split: option.splits)

lemma first_greatest_Some:
  "first_greatest key ds = Some d \<Longrightarrow>
     d \<in> set ds \<and> (\<forall>d' \<in> set ds. \<not> date_less (sort_date key d) (sort_date key d'))"
proof (induction ds arbitrary: d)
  case Nil
  then show ?case by simp
next
  case (Cons x xs)
  show ?case
  proof (cases "first_greatest key xs")
    case None
    then have "xs = []" by (simp add: first_greatest_None)
    with Cons.prems show ?thesis by (auto simp: date_less_irrefl)
  next
    case (Some b)
    note IH = Cons.IH[OF Some]
    show ?thesis
    proof (cases "date_less (sort_date key x) (sort_date key b)")
      case True
      with Some Cons.prems have "d = b" by simp
      with IH True show ?thesis
        by (auto simp: date_less_def split: option.splits)
    next
      case False
      with Some Cons.prems have "d = x" by simp
      have "\<not> date_less (sort_date key x) (sort_date key d')" if "d' \<in> set xs" for d'
        using date_less_total[OF False] IH that by blast
      with \<open>d = x\<close> show ?thesis by (auto simp: date_less_irrefl)
    qed
  qed
qed

lemma find_one_sorted_desc_None:
  "find_one_sorted_desc flt key c = None \<longleftrightarrow> (\<forall>d \<in> set c. \<not> matches flt d)"
  by (auto simp: find_one_sorted_desc_def first_greatest_None filter_empty_conv)

lemma find_one_sorted_desc_Some:
  "find_one_sorted_desc flt key c = Some d \<Longrightarrow>
     d \<in> set c \<and> matches flt d \<and>
     (\<forall>d' \<in> set c. matches flt d' \<longrightarrow> \<not> date_less (sort_date key d) (sort_date key d'))"
  unfolding find_one_sorted_desc_def
  by (drule first_greatest_Some) auto

lemma find_one_sorted_desc_strict:
  assumes "d \<in> set c" "matches flt d"
    and "\<forall>d' \<in> set c. matches flt d' \<longrightarrow> d' = d \<or> date_less (sort_date key d') (sort_date key d)"
  shows "find_one_sorted_desc flt key c = Some d"
proof (cases "find_one_sorted_desc flt key c")
  case None
  with assms(1,2) show ?thesis by (simp add: find_one_sorted_desc_None)
next
  case (Some r)
  from find_one_sorted_desc_Some[OF Some] have r: "r \<in> set c" "matches flt r"
    and mx: "\<not> date_less (sort_date key r) (sort_date key d)" using assms(1,2) by auto
  from assms(3) r have "r = d \<or> date_less (sort_date key r) (sort_date key d)" by blast
  with mx Some show ?thesis by simp
qed

subsection \<open>The entity repositories\<close>

lemma absent_iff: "\<not> stored_under s c \<longleftrightarrow> (\<forall>i. ObjectId s = Some i \<longrightarrow> i \<notin> ids c)"
  by (auto simp: ids_def stored_under_def)

lemma get_or_404_malformed:
  "\<not> hex24 s \<Longrightarrow> get_or_404 c s = Inl (HTTPException 400 ''Invalid id format'')"
  by (simp add: get_or_404_def oid_malformed)

lemma get_or_404_absent:
  assumes "hex24 s" "\<not> stored_under s c"
  shows "get_or_404 c s = Inl (HTTPException 404 ''Not found'')"
proof -
  from assms(1) obtain i where i: "ObjectId s = Some i" using hex24_ObjectId by blast
  with assms(2) have "i \<notin> ids c" by (auto simp: ids_def stored_under_def)
  then have "find_one_by_id i c = None" by (simp add: find_one_by_id_None)
  with i show ?thesis by (simp add: get_or_404_def oid_def)
qed

lemma get_or_404_inserted:
  "i \<notin> ids c \<Longrightarrow>
     get_or_404 (c @ [\<lparr>doc_id = i, doc_fields = f\<rparr>]) (str_of_oid i) = Inr \<lparr>doc_id = i, doc_fields = f\<rparr>"
  by (simp add: get_or_404_def oid_str_of_oid find_after_insert)

lemma insert_one_fresh:
  "i \<notin> ids c \<Longrightarrow> insert_one i f c = Inr (i, c @ [\<lparr>doc_id = i, doc_fields = f\<rparr>])"
  by (simp add: insert_one_def)


lemma delete_one_unmatched:
  assumes "hex24 s" "\<not> stored_under s c"
  shows "\<exists>i. oid s = Inr i \<and> delete_one i c = (0, c)"
proof -
  from assms(1) obtain i where i: "ObjectId s = Some i" using hex24_ObjectId by blast
  with assms(2) have "i \<notin> ids c" by (auto simp: ids_def stored_under_def)
  with i show ?thesis by (simp add: oid_def delete_one_absent)
qed


lemma delete_one_twice:
  assumes "i \<in> ids c" "distinct (map doc_id c)"
  shows "\<exists>c'. delete_one i c = (1, c') \<and> ids c' = ids c - {i} \<and> delete_one i c' = (0, c')"
proof -
  from delete_one_present[OF assms] obtain c' where
    c': "delete_one i c = (1, c')" "ids c' = ids c - {i}" by blast
  then have "i \<notin> ids c'" by simp
  then have "delete_one i c' = (0, c')" by (rule delete_one_absent)
  with c' show ?thesis by blast
qed






lemma roundtrip_events: "roundtrip create_event get_event db_events Event_model_dump"
  unfolding roundtrip_def
  by (auto simp: create_event_def get_event_def insert_one_def get_or_404_inserted to_json_def
        split: if_splits)

lemma get_contract_events: "get_contract get_event db_events"
  unfolding get_contract_def
  by (auto simp: get_event_def get_or_404_malformed get_or_404_absent)


lemma delete_contract_events:
  "delete_contract delete_event db_events ''Event not found'' ''Event deleted''"
  unfolding delete_contract_def
proof (intro allI conjI impI)
  fix s and db :: database
  assume "\<not> hex24 s"
  then show "delete_event s db = (Inl (HTTPException 400 ''Invalid id format''), db)"
    by (simp add: delete_event_def oid_malformed)
next
  fix s and db :: database
  assume "hex24 s \<and> \<not> stored_under s (db_events db)"
  then obtain i where "oid s = Inr i" "delete_one i (db_events db) = (0, db_events db)"
    using delete_one_unmatched by blast
  then show "delete_event s db = (Inl (HTTPException 404 ''Event not found''), db)"
    by (simp add: delete_event_def)
next
  fix s i and db :: database
  assume a: "ObjectId s = Some i \<and> i \<in> ids (db_events db) \<and> distinct (map doc_id (db_events db))"
  then obtain c' where c': "delete_one i (db_events db) = (1, c')" "ids c' = ids (db_events db) - {i}"
    "delete_one i c' = (0, c')" using delete_one_twice by blast
  let ?db' = "db\<lparr>db_events := c'\<rparr>"
  from a c' have "delete_event s db = (Inr (Ack ''Event deleted''), ?db') \<and>
      ids (db_events ?db') = ids (db_events db) - {i} \<and>
      delete_event s ?db' = (Inl (HTTPException 404 ''Event not found''), ?db')"
    by (simp add: delete_event_def oid_def)
  then show "\<exists>db'. delete_event s db = (Inr (Ack ''Event deleted''), db') \<and>
      ids (db_events db') = ids (db_events db) - {i} \<and>
      delete_event s db' = (Inl (HTTPException 404 ''Event not found''), db')"
    by (intro exI[of _ ?db'])
qed

lemma roundtrip_attendees: "roundtrip create_attendee get_attendee db_attendees Attendee_model_dump"
  unfolding roundtrip_def
  by (auto simp: create_attendee_def get_attendee_def insert_one_def get_or_404_inserted to_json_def
        split: if_splits)

lemma get_contract_attendees: "get_contract get_attendee db_attendees"
  unfolding get_contract_def
  by (auto simp: get_attendee_def get_or_404_malformed get_or_404_absent)


lemma delete_contract_attendees:
  "delete_contract delete_attendee db_attendees ''Attendee not found'' ''Attendee deleted''"
  unfolding delete_contract_def
proof (intro allI conjI impI)
  fix s and db :: database
  assume "\<not> hex24 s"
  then show "delete_attendee s db = (Inl (HTTPException 400 ''Invalid id format''), db)"
    by (simp add: delete_attendee_def oid_malformed)
next
  fix s and db :: database
  assume "hex24 s \<and> \<not> stored_under s (db_attendees db)"
  then obtain i where "oid s = Inr i" "delete_one i (db_attendees db) = (0, db_attendees db)"
    using delete_one_unmatched by blast
  then show "delete_attendee s db = (Inl (HTTPException 404 ''Attendee not found''), db)"
    by (simp add: delete_attendee_def)
next
  fix s i and db :: database
  assume a: "ObjectId s = Some i \<and> i \<in> ids (db_attendees db) \<and> distinct (map doc_id (db_attendees db))"
  then obtain c' where c': "delete_one i (db_attendees db) = (1, c')" "ids c' = ids (db_attendees db) - {i}"
    "delete_one i c' = (0, c')" using delete_one_twice by blast
  let ?db' = "db\<lparr>db_attendees := c'\<rparr>"
  from a c' have "delete_attendee s db = (Inr (Ack ''Attendee deleted''), ?db') \<and>
      ids (db_attendees ?db') = ids (db_attendees db) - {i} \<and>
      delete_attendee s ?db' = (Inl (HTTPException 404 ''Attendee not found''), ?db')"
    by (simp add: delete_attendee_def oid_def)
  then show "\<exists>db'. delete_attendee s db = (Inr (Ack ''Attendee deleted''), db') \<and>
      ids (db_attendees db') = ids (db_attendees db) - {i} \<and>
      delete_attendee s db' = (Inl (HTTPException 404 ''Attendee not found''), db')"
    by (intro exI[of _ ?db'])
qed

lemma roundtrip_venues: "roundtrip create_venue get_venue db_venues Venue_model_dump"
  unfolding roundtrip_def
  by (auto simp: create_venue_def get_venue_def insert_one_def get_or_404_inserted to_json_def
        split: if_splits)

lemma get_contract_venues: "get_contract get_venue db_venues"
  unfolding get_contract_def
  by (auto simp: get_venue_def get_or_404_malformed get_or_404_absent)


lemma delete_contract_venues:
  "delete_contract delete_venue db_venues ''Venue not found'' ''Venue deleted''"
  unfolding delete_contract_def
proof (intro allI conjI impI)
  fix s and db :: database
  assume "\<not> hex24 s"
  then show "delete_venue s db = (Inl (HTTPException 400 ''Invalid id format''), db)"
    by (simp add: delete_venue_def oid_malformed)
next
  fix s and db :: database
  assume "hex24 s \<and> \<not> stored_under s (db_venues db)"
  then obtain i where "oid s = Inr i" "delete_one i (db_venues db) = (0, db_venues db)"
    using delete_one_unmatched by blast
  then show "delete_venue s db = (Inl (HTTPException 404 ''Venue not found''), db)"
    by (simp add: delete_venue_def)
next
  fix s i and db :: database
  assume a: "ObjectId s = Some i \<and> i \<in> ids (db_venues db) \<and> distinct (map doc_id (db_venues db))"
  then obtain c' where c': "delete_one i (db_venues db) = (1, c')" "ids c' = ids (db_venues db) - {i}"
    "delete_one i c' = (0, c')" using delete_one_twice by blast
  let ?db' = "db\<lparr>db_venues := c'\<rparr>"
  from a c' have "delete_venue s db = (Inr (Ack ''Venue deleted''), ?db') \<and>
      ids (db_venues ?db') = ids (db_venues db) - {i} \<and>
      delete_venue s ?db' = (Inl (HTTPException 404 ''Venue not found''), ?db')"
    by (simp add: delete_venue_def oid_def)
  then show "\<exists>db'. delete_venue s db = (Inr (Ack ''Venue deleted''), db') \<and>
      ids (db_venues db') = ids (db_venues db) - {i} \<and>
      delete_venue s db' = (Inl (HTTPException 404 ''Venue not found''), db')"
    by (intro exI[of _ ?db'])
qed

lemma roundtrip_booking: "roundtrip create_booking get_booking db_booking Booking_model_dump"
  unfolding roundtrip_def
  by (auto simp: create_booking_def get_booking_def insert_one_def get_or_404_inserted to_json_def
        split: if_splits)

lemma get_contract_booking: "get_contract get_booking db_booking"
  unfolding get_contract_def
  by (auto simp: get_booking_def get_or_404_malformed get_or_404_absent)


lemma delete_contract_booking:
  "delete_contract delete_booking db_booking ''Booking not found'' ''Booking deleted''"
  unfolding delete_contract_def
proof (intro allI conjI impI)
  fix s and db :: database
  assume "\<not> hex24 s"
  then show "delete_booking s db = (Inl (HTTPException 400 ''Invalid id format''), db)"
    by (simp add: delete_booking_def oid_malformed)
next
  fix s and db :: database
  assume "hex24 s \<and> \<not> stored_under s (db_booking db)"
  then obtain i where "oid s = Inr i" "delete_one i (db_booking db) = (0, db_booking db)"
    using delete_one_unmatched by blast
  then show "delete_booking s db = (Inl (HTTPException 404 ''Booking not found''), db)"
    by (simp add: delete_booking_def)
next
  fix s i and db :: database
  assume a: "ObjectId s = Some i \<and> i \<in> ids (db_booking db) \<and> distinct (map doc_id (db_booking db))"
  then obtain c' where c': "delete_one i (db_booking db) = (1, c')" "ids c' = ids (db_booking db) - {i}"
    "delete_one i c' = (0, c')" using delete_one_twice by blast
  let ?db' = "db\<lparr>db_booking := c'\<rparr>"
  from a c' have "delete_booking s db = (Inr (Ack ''Booking deleted''), ?db') \<and>
      ids (db_booking ?db') = ids (db_booking db) - {i} \<and>
      delete_booking s ?db' = (Inl (HTTPException 404 ''Booking not found''), ?db')"
    by (simp add: delete_booking_def oid_def)
  then show "\<exists>db'. delete_booking s db = (Inr (Ack ''Booking deleted''), db') \<and>
      ids (db_booking db') = ids (db_booking db) - {i} \<and>
      delete_booking s db' = (Inl (HTTPException 404 ''Booking not found''), db')"
    by (intro exI[of _ ?db'])
qed

subsection \<open>The claims on the entity repositories\<close>

lemma to_hex_seven: "to_hex 24 7 = id_seven"
  by code_simp

lemma to_hex_nine: "to_hex 24 9 = id_nine"
  by code_simp

lemma str_of_oid_seven: "str_of_oid 7 = id_seven"
  by (simp add: str_of_oid_def to_hex_seven)

lemma str_of_oid_nine: "str_of_oid 9 = id_nine"
  by (simp add: str_of_oid_def to_hex_nine)

lemma ObjectId_seven: "ObjectId id_seven = Some 7"
  using ObjectId_str_of_oid[of 7] by (simp add: str_of_oid_seven)

lemma ObjectId_nine: "ObjectId id_nine = Some 9"
  using ObjectId_str_of_oid[of 9] by (simp add: str_of_oid_nine)

lemma hex24_nine: "hex24 id_nine"
  using hex24_str_of_oid[of 9] by (simp add: str_of_oid_nine)

lemma not_hex24_malformed: "\<not> hex24 id_malformed"
  by (simp add: hex24_def id_malformed_def py_def)

text \<open>
  Claim C4: for each of the four entity collections and every entity, creating the entity
  and getting the returned id round-trips. Creation succeeds when the identifier the
  driver generates is not yet in the collection, and whenever it succeeds,
  \<^verbatim>\<open>get(create(e).id)\<close> is the document that holds each schema field with the value the
  entity has for it (an absent phone number as null) and, under \<^verbatim>\<open>_id\<close>, the id in its
  string encoding, and nothing else.
\<close>

theorem create_then_get_roundtrip:
  "(new_id \<notin> ids (db_events db) \<longrightarrow>
      (\<exists>db'. create_event new_id e db =
         (Inr (Created ''Event created'' (str_of_oid new_id)), db'))) \<and>
   (create_event new_id e db = (Inr (Created msg s), db') \<longrightarrow>
      get_event s db' =
        (Inr (Document [(''_id'', BStr s), (''name'', BStr (event_name e)),
           (''description'', BStr (event_description e)), (''date'', BStr (event_date e)),
           (''venue_id'', BStr (event_venue_id e)),
           (''max_attendees'', BInt (event_max_attendees e))]), db')) \<and>
   (new_id \<notin> ids (db_attendees db) \<longrightarrow>
      (\<exists>db'. create_attendee new_id a db =
         (Inr (Created ''Attendee created'' (str_of_oid new_id)), db'))) \<and>
   (create_attendee new_id a db = (Inr (Created msg s), db') \<longrightarrow>
      get_attendee s db' =
        (Inr (Document [(''_id'', BStr s), (''name'', BStr (attendee_name a)),
           (''email'', BStr (attendee_email a)),
           (''phone'', (case attendee_phone a of None \<Rightarrow> BNull | Some p \<Rightarrow> BStr p))]), db')) \<and>
   (new_id \<notin> ids (db_venues db) \<longrightarrow>
      (\<exists>db'. create_venue new_id v db =
         (Inr (Created ''Venue created'' (str_of_oid new_id)), db'))) \<and>
   (create_venue new_id v db = (Inr (Created msg s), db') \<longrightarrow>
      get_venue s db' =
        (Inr (Document [(''_id'', BStr s), (''name'', BStr (venue_name v)),
           (''address'', BStr (venue_address v)), (''capacity'', BInt (venue_capacity v))]), db')) \<and>
   (new_id \<notin> ids (db_booking db) \<longrightarrow>
      (\<exists>db'. create_booking new_id b db =
         (Inr (Created ''Booking created'' (str_of_oid new_id)), db'))) \<and>
   (create_booking new_id b db = (Inr (Created msg s), db') \<longrightarrow>
      get_booking s db' =
        (Inr (Document [(''_id'', BStr s), (''event_id'', BStr (booking_event_id b)),
           (''attendee_id'', BStr (booking_attendee_id b)),
           (''ticket_type'', BStr (booking_ticket_type b)),
           (''quantity'', BInt (booking_quantity b))]), db'))"
proof -
  have e1: "new_id \<notin> ids (db_events db) \<Longrightarrow>
      \<exists>db'. create_event new_id e db = (Inr (Created ''Event created'' (str_of_oid new_id)), db')"
    by (simp add: create_event_def insert_one_def)
  have e2: "create_event new_id e db = (Inr (Created msg s), db') \<Longrightarrow>
      get_event s db' = (Inr (Document ((''_id'', BStr s) # Event_model_dump e)), db')"
    using roundtrip_events unfolding roundtrip_def by blast
  have a1: "new_id \<notin> ids (db_attendees db) \<Longrightarrow>
      \<exists>db'. create_attendee new_id a db = (Inr (Created ''Attendee created'' (str_of_oid new_id)), db')"
    by (simp add: create_attendee_def insert_one_def)
  have a2: "create_attendee new_id a db = (Inr (Created msg s), db') \<Longrightarrow>
      get_attendee s db' = (Inr (Document ((''_id'', BStr s) # Attendee_model_dump a)), db')"
    using roundtrip_attendees unfolding roundtrip_def by blast
  have v1: "new_id \<notin> ids (db_venues db) \<Longrightarrow>
      \<exists>db'. create_venue new_id v db = (Inr (Created ''Venue created'' (str_of_oid new_id)), db')"
    by (simp add: create_venue_def insert_one_def)
  have v2: "create_venue new_id v db = (Inr (Created msg s), db') \<Longrightarrow>
      get_venue s db' = (Inr (Document ((''_id'', BStr s) # Venue_model_dump v)), db')"
    using roundtrip_venues unfolding roundtrip_def by blast
  have b1: "new_id \<notin> ids (db_booking db) \<Longrightarrow>
      \<exists>db'. create_booking new_id b db = (Inr (Created ''Booking created'' (str_of_oid new_id)), db')"
    by (simp add: create_booking_def insert_one_def)
  have b2: "create_booking new_id b db = (Inr (Created msg s), db') \<Longrightarrow>
      get_booking s db' = (Inr (Document ((''_id'', BStr s) # Booking_model_dump b)), db')"
    using roundtrip_booking unfolding roundtrip_def by blast
  show ?thesis
    using e1 e2 a1 a2 v1 v2 b1 b2
    by (simp add: Event_model_dump_def Attendee_model_dump_def Venue_model_dump_def
          Booking_model_dump_def)
qed

theorem create_then_get_roundtrip_witness:
  "7 \<notin> ids (db_events empty_db) \<and>
   create_event 7 summer_fest empty_db = (Inr (Created ''Event created'' id_seven), db_with_event) \<and>
   get_event id_seven db_with_event =
     (Inr (Document [(''_id'', BStr id_seven), (''name'', BStr (py ''Summer Fest'')),
        (''description'', BStr (py ''Open air'')), (''date'', BStr (py ''2025-07-01'')),
        (''venue_id'', BStr (py ''main-hall'')), (''max_attendees'', BInt 500)]), db_with_event) \<and>
   7 \<notin> ids (db_attendees empty_db) \<and>
   create_attendee 7 ada empty_db = (Inr (Created ''Attendee created'' id_seven), db_with_attendee) \<and>
   get_attendee id_seven db_with_attendee =
     (Inr (Document [(''_id'', BStr id_seven), (''name'', BStr (py ''Ada'')),
        (''email'', BStr (py ''ada@example.org'')), (''phone'', BNull)]), db_with_attendee) \<and>
   7 \<notin> ids (db_venues empty_db) \<and>
   create_venue 7 town_hall empty_db = (Inr (Created ''Venue created'' id_seven), db_with_venue) \<and>
   get_venue id_seven db_with_venue =
     (Inr (Document [(''_id'', BStr id_seven), (''name'', BStr (py ''Town Hall'')),
        (''address'', BStr (py ''1 Main St'')), (''capacity'', BInt 300)]), db_with_venue) \<and>
   7 \<notin> ids (db_booking empty_db) \<and>
   create_booking 7 two_tickets empty_db = (Inr (Created ''Booking created'' id_seven), db_with_booking) \<and>
   get_booking id_seven db_with_booking =
     (Inr (Document [(''_id'', BStr id_seven), (''event_id'', BStr id_seven),
        (''attendee_id'', BStr id_nine), (''ticket_type'', BStr (py ''VIP'')),
        (''quantity'', BInt 2)]), db_with_booking)"
proof -
  have he: "7 \<notin> ids (db_events empty_db)" by (simp add: empty_db_def ids_def)
  have ha: "7 \<notin> ids (db_attendees empty_db)" by (simp add: empty_db_def ids_def)
  have hv: "7 \<notin> ids (db_venues empty_db)" by (simp add: empty_db_def ids_def)
  have hb: "7 \<notin> ids (db_booking empty_db)" by (simp add: empty_db_def ids_def)
  have ce: "create_event 7 summer_fest empty_db = (Inr (Created ''Event created'' id_seven), db_with_event)"
    by (simp add: create_event_def insert_one_def ids_def empty_db_def db_with_event_def str_of_oid_seven)
  have ca: "create_attendee 7 ada empty_db = (Inr (Created ''Attendee created'' id_seven), db_with_attendee)"
    by (simp add: create_attendee_def insert_one_def ids_def empty_db_def db_with_attendee_def
          str_of_oid_seven Attendee_model_dump_def ada_def)
  have cv: "create_venue 7 town_hall empty_db = (Inr (Created ''Venue created'' id_seven), db_with_venue)"
    by (simp add: create_venue_def insert_one_def ids_def empty_db_def db_with_venue_def
          str_of_oid_seven Venue_model_dump_def town_hall_def)
  have cb: "create_booking 7 two_tickets empty_db = (Inr (Created ''Booking created'' id_seven), db_with_booking)"
    by (simp add: create_booking_def insert_one_def ids_def empty_db_def db_with_booking_def
          str_of_oid_seven Booking_model_dump_def two_tickets_def)
  note t = create_then_get_roundtrip[of 7 empty_db summer_fest _ _ _ ada town_hall two_tickets]
  from t ce have ge: "get_event id_seven db_with_event =
     (Inr (Document [(''_id'', BStr id_seven), (''name'', BStr (py ''Summer Fest'')),
        (''description'', BStr (py ''Open air'')), (''date'', BStr (py ''2025-07-01'')),
        (''venue_id'', BStr (py ''main-hall'')), (''max_attendees'', BInt 500)]), db_with_event)"
    by (simp add: summer_fest_def)
  from t ca have ga: "get_attendee id_seven db_with_attendee =
     (Inr (Document [(''_id'', BStr id_seven), (''name'', BStr (py ''Ada'')),
        (''email'', BStr (py ''ada@example.org'')), (''phone'', BNull)]), db_with_attendee)"
    by (simp add: ada_def)
  from t cv have gv: "get_venue id_seven db_with_venue =
     (Inr (Document [(''_id'', BStr id_seven), (''name'', BStr (py ''Town Hall'')),
        (''address'', BStr (py ''1 Main St'')), (''capacity'', BInt 300)]), db_with_venue)"
    by (simp add: town_hall_def)
  from t cb have gb: "get_booking id_seven db_with_booking =
     (Inr (Document [(''_id'', BStr id_seven), (''event_id'', BStr id_seven),
        (''attendee_id'', BStr id_nine), (''ticket_type'', BStr (py ''VIP'')),
        (''quantity'', BInt 2)]), db_with_booking)"
    by (simp add: two_tickets_def)
  from he ha hv hb ce ca cv cb ge ga gv gb show ?thesis by simp
qed

text \<open>
  Claim C6: for each of the four get-by-id operations, an id string that is not a
  well-formed 24-character hexadecimal identifier fails with HTTP 400, and a well-formed
  id under which no document is stored fails with HTTP 404.
\<close>

theorem get_rejects_malformed_and_absent_ids:
  "get_contract get_event db_events \<and> get_contract get_attendee db_attendees \<and>
   get_contract get_venue db_venues \<and> get_contract get_booking db_booking"
  by (intro conjI get_contract_events get_contract_attendees get_contract_venues get_contract_booking)

theorem get_rejects_malformed_and_absent_ids_witness:
  "\<not> hex24 id_malformed \<and>
   get_event id_malformed db_with_event = (Inl (HTTPException 400 ''Invalid id format''), db_with_event) \<and>
   hex24 id_nine \<and> \<not> stored_under id_nine (db_events db_with_event) \<and>
   get_event id_nine db_with_event = (Inl (HTTPException 404 ''Not found''), db_with_event)"
proof -
  have g: "get_contract get_event db_events" using get_rejects_malformed_and_absent_ids by (rule conjunct1)
  have a: "\<not> stored_under id_nine (db_events db_with_event)"
    by (simp add: stored_under_def db_with_event_def empty_db_def ObjectId_nine)
  from g not_hex24_malformed
  have r1: "get_event id_malformed db_with_event = (Inl (HTTPException 400 ''Invalid id format''), db_with_event)"
    unfolding get_contract_def by blast
  from g hex24_nine a
  have r2: "get_event id_nine db_with_event = (Inl (HTTPException 404 ''Not found''), db_with_event)"
    unfolding get_contract_def by blast
  from not_hex24_malformed hex24_nine a r1 r2 show ?thesis by blast
qed




text \<open>
  Claim C8, as the specification states it, has every delete of an id matching no stored
  document yield 404. On the id \<^verbatim>\<open>not-a-valid-id\<close>, with no document stored at all, the
  handler raises \<^verbatim>\<open>HTTPException(400, "Invalid id format")\<close>.
\<close>

theorem delete_malformed_id_counterexample:
  "db_events empty_db = [] \<and>
   delete_event id_malformed empty_db = (Inl (HTTPException 400 ''Invalid id format''), empty_db)"
  by (simp add: empty_db_def delete_event_def oid_malformed[OF not_hex24_malformed])

text \<open>
  Claim C8, amended: for each of the four entity collections, a first delete of the id of
  a stored document removes the document and succeeds, and a second delete of the same id
  yields 404, as does any delete of a well-formed id matching no stored document; a delete
  of a malformed id yields 400.
\<close>

theorem delete_then_not_found:
  "delete_contract delete_event db_events ''Event not found'' ''Event deleted'' \<and>
   delete_contract delete_attendee db_attendees ''Attendee not found'' ''Attendee deleted'' \<and>
   delete_contract delete_venue db_venues ''Venue not found'' ''Venue deleted'' \<and>
   delete_contract delete_booking db_booking ''Booking not found'' ''Booking deleted''"
  by (intro conjI delete_contract_events delete_contract_attendees delete_contract_venues
        delete_contract_booking)

theorem delete_then_not_found_witness:
  "\<not> hex24 id_malformed \<and>
   delete_event id_malformed db_with_event = (Inl (HTTPException 400 ''Invalid id format''), db_with_event) \<and>
   hex24 id_nine \<and> \<not> stored_under id_nine (db_events db_with_event) \<and>
   delete_event id_nine db_with_event = (Inl (HTTPException 404 ''Event not found''), db_with_event) \<and>
   ObjectId id_seven = Some 7 \<and> 7 \<in> ids (db_events db_with_event) \<and>
   distinct (map doc_id (db_events db_with_event)) \<and>
   (\<exists>db'. delete_event id_seven db_with_event = (Inr (Ack ''Event deleted''), db') \<and>
      ids (db_events db') = ids (db_events db_with_event) - {7} \<and>
      delete_event id_seven db' = (Inl (HTTPException 404 ''Event not found''), db'))"
proof -
  have c: "delete_contract delete_event db_events ''Event not found'' ''Event deleted''"
    using delete_then_not_found by (rule conjunct1)
  have a: "\<not> stored_under id_nine (db_events db_with_event)"
    by (simp add: stored_under_def db_with_event_def empty_db_def ObjectId_nine)
  have m: "7 \<in> ids (db_events db_with_event)" "distinct (map doc_id (db_events db_with_event))"
    by (simp_all add: db_with_event_def empty_db_def ids_def)
  from c not_hex24_malformed
  have r1: "delete_event id_malformed db_with_event = (Inl (HTTPException 400 ''Invalid id format''), db_with_event)"
    unfolding delete_contract_def by blast
  from c hex24_nine a
  have r2: "delete_event id_nine db_with_event = (Inl (HTTPException 404 ''Event not found''), db_with_event)"
    unfolding delete_contract_def by blast
  from c ObjectId_seven m
  have r3: "\<exists>db'. delete_event id_seven db_with_event = (Inr (Ack ''Event deleted''), db') \<and>
      ids (db_events db') = ids (db_events db_with_event) - {7} \<and>
      delete_event id_seven db' = (Inl (HTTPException 404 ''Event not found''), db')"
    unfolding delete_contract_def by blast
  from not_hex24_malformed hex24_nine a ObjectId_seven m r1 r2 r3 show ?thesis by blast
qed

text \<open>
  Claim C9: each of the four list operations returns at most 100 documents, whatever the
  size of the collection: the first 100 in storage order, each with its id as a string.
\<close>

theorem list_returns_at_most_100:
  "(\<exists>ds. list_events db = (Inr (Documents ds), db) \<and>
      ds = map to_json (take 100 (db_events db)) \<and> length ds \<le> 100) \<and>
   (\<exists>ds. list_attendees db = (Inr (Documents ds), db) \<and>
      ds = map to_json (take 100 (db_attendees db)) \<and> length ds \<le> 100) \<and>
   (\<exists>ds. list_venues db = (Inr (Documents ds), db) \<and>
      ds = map to_json (take 100 (db_venues db)) \<and> length ds \<le> 100) \<and>
   (\<exists>ds. list_bookings db = (Inr (Documents ds), db) \<and>
      ds = map to_json (take 100 (db_booking db)) \<and> length ds \<le> 100)"
  by (simp add: list_events_def list_attendees_def list_venues_def list_bookings_def to_list_def)

subsection \<open>The media store\<close>

lemma matches_media_filter: "matches (media_filter lf li mt) d \<longleftrightarrow> owned lf li mt d"
  by (simp add: matches_def media_filter_def owned_def)

lemma upload_media_fresh:
  "i \<notin> ids c \<Longrightarrow>
     upload_media i now c lf li mt file =
       Inr (Created ''Uploaded'' (str_of_oid i), c @ [\<lparr>doc_id = i, doc_fields = media_fields lf li mt file now\<rparr>])"
  by (simp add: upload_media_def insert_one_def)

lemma upload_media_Inr:
  "upload_media i now c lf li mt file = Inr (r, c') \<Longrightarrow>
     c' = c @ [\<lparr>doc_id = i, doc_fields = media_fields lf li mt file now\<rparr>]"
  by (auto simp: upload_media_def insert_one_def split: if_splits)

lemma media_doc_owned:
  "lf \<in> {''event_id'', ''venue_id''} \<Longrightarrow>
     owned lf li mt \<lparr>doc_id = i, doc_fields = media_fields lf li mt file now\<rparr>"
  by (auto simp: owned_def media_fields_def)

lemma media_doc_date:
  "lf \<in> {''event_id'', ''venue_id''} \<Longrightarrow>
     sort_date ''uploaded_at'' \<lparr>doc_id = i, doc_fields = media_fields lf li mt file now\<rparr> = Some now"
  by (auto simp: sort_date_def media_fields_def)

lemma media_doc_response:
  "lf \<in> {''event_id'', ''venue_id''} \<Longrightarrow> encodable file \<Longrightarrow>
     streaming_response \<lparr>doc_id = i, doc_fields = media_fields lf li mt file now\<rparr> =
       Inr (StreamingResponse (content file) (opt_str (content_type file)) (opt_str (filename file)))"
  by (auto simp: streaming_response_def new_StreamingResponse_def media_fields_def encodable_def
        opt_str_def split: option.splits)

lemma stream_latest_none:
  "\<not> has_media c lf li mt \<Longrightarrow>
     stream_latest_media c lf li mt = Inl (HTTPException 404 ''No media found'')"
  using find_one_sorted_desc_None[of "media_filter lf li mt" "''uploaded_at''" c]
  by (simp add: stream_latest_media_def has_media_def matches_media_filter)

lemma stream_latest_some:
  assumes "has_media c lf li mt"
  shows "\<exists>d. newest c lf li mt d \<and> stream_latest_media c lf li mt = streaming_response d"
proof (cases "find_one_sorted_desc (media_filter lf li mt) ''uploaded_at'' c")
  case None
  with assms show ?thesis
    by (simp add: find_one_sorted_desc_None has_media_def matches_media_filter)
next
  case (Some d)
  from find_one_sorted_desc_Some[OF Some] have "newest c lf li mt d"
    by (simp add: newest_def matches_media_filter)
  with Some show ?thesis
    by (intro exI[of _ d]) (simp add: stream_latest_media_def)
qed

lemma stream_latest_appended:
  assumes lf: "lf \<in> {''event_id'', ''venue_id''}"
    and older: "all_older c lf li mt now"
  shows "stream_latest_media (c @ [\<lparr>doc_id = i, doc_fields = media_fields lf li mt file now\<rparr>]) lf li mt =
           streaming_response \<lparr>doc_id = i, doc_fields = media_fields lf li mt file now\<rparr>"
proof -
  let ?d = "\<lparr>doc_id = i, doc_fields = media_fields lf li mt file now\<rparr>"
  have "find_one_sorted_desc (media_filter lf li mt) ''uploaded_at'' (c @ [?d]) = Some ?d"
  proof (rule find_one_sorted_desc_strict)
    show "?d \<in> set (c @ [?d])" by simp
    show "matches (media_filter lf li mt) ?d"
      using lf by (simp only: matches_media_filter media_doc_owned)
    show "\<forall>d' \<in> set (c @ [?d]). matches (media_filter lf li mt) d' \<longrightarrow>
            d' = ?d \<or> date_less (sort_date ''uploaded_at'' d') (sort_date ''uploaded_at'' ?d)"
      using older by (auto simp: media_doc_date[OF lf] all_older_def matches_media_filter)
  qed
  then show ?thesis by (simp add: stream_latest_media_def)
qed

lemma stream_latest_newest:
  assumes lf: "lf \<in> {''event_id'', ''venue_id''}"
    and older: "all_older c lf li mt now"
    and enc: "encodable file"
  shows "stream_latest_media (c @ [\<lparr>doc_id = i, doc_fields = media_fields lf li mt file now\<rparr>]) lf li mt =
           Inr (StreamingResponse (content file) (opt_str (content_type file)) (opt_str (filename file)))"
  by (simp only: stream_latest_appended[OF lf older] media_doc_response[OF lf enc])

lemma new_StreamingResponse_never_400: "new_StreamingResponse b ct fn \<noteq> Inl (HTTPException 400 msg)"
  by (simp add: new_StreamingResponse_def split: bson.splits)

lemma stream_latest_never_400: "stream_latest_media c lf li mt \<noteq> Inl (HTTPException 400 msg)"
  by (auto simp: stream_latest_media_def streaming_response_def new_StreamingResponse_never_400
        split: option.splits bson.splits)

lemmas media_eval = stream_latest_media_def find_one_sorted_desc_def matches_def media_filter_def
  media_fields_def sort_date_def date_less_def streaming_response_def new_StreamingResponse_def
  latin1_def opt_str_def py_def ord_def

text \<open>
  Claim C7 has the retrieval after two sequential uploads for the same owner and category
  return the bytes of the second upload and never the first. Which of the two is returned
  is decided by the timestamps the uploads read from the wall clock, which the store keeps
  to the millisecond. When the second upload for the event 7 reads the same time as the
  first, and when it reads an earlier one (the clock having been set back in between), the
  retrieval of the event's poster returns the bytes of the first upload.
\<close>

theorem latest_media_serves_first_upload_counterexample:
  "upload_event_poster 1 1000 id_seven poster_png empty_db =
     (Inr (Created ''Uploaded'' (str_of_oid 1)), empty_db\<lparr>db_media := media_one\<rparr>) \<and>
   upload_event_poster 2 1000 id_seven poster_jpg (empty_db\<lparr>db_media := media_one\<rparr>) =
     (Inr (Created ''Uploaded'' (str_of_oid 2)), empty_db\<lparr>db_media := media_same_time\<rparr>) \<and>
   get_event_poster id_seven (empty_db\<lparr>db_media := media_same_time\<rparr>) =
     (Inr (StreamingResponse [137, 80, 78, 71, 1] (BStr (py ''image/png'')) (BStr (py ''poster.png''))),
      empty_db\<lparr>db_media := media_same_time\<rparr>) \<and>
   upload_event_poster 2 999 id_seven poster_jpg (empty_db\<lparr>db_media := media_one\<rparr>) =
     (Inr (Created ''Uploaded'' (str_of_oid 2)), empty_db\<lparr>db_media := media_clock_back\<rparr>) \<and>
   get_event_poster id_seven (empty_db\<lparr>db_media := media_clock_back\<rparr>) =
     (Inr (StreamingResponse [137, 80, 78, 71, 1] (BStr (py ''image/png'')) (BStr (py ''poster.png''))),
      empty_db\<lparr>db_media := media_clock_back\<rparr>) \<and>
   content poster_png = [137, 80, 78, 71, 1] \<and> content poster_jpg = [255, 216, 255, 2]"
proof -
  have u1: "upload_event_poster 1 1000 id_seven poster_png empty_db =
     (Inr (Created ''Uploaded'' (str_of_oid 1)), empty_db\<lparr>db_media := media_one\<rparr>)"
    by (simp add: upload_event_poster_def lacks_prefix_def poster_png_def py_def ord_def
          upload_media_fresh ids_def empty_db_def media_one_def)
  have u2: "upload_event_poster 2 1000 id_seven poster_jpg (empty_db\<lparr>db_media := media_one\<rparr>) =
     (Inr (Created ''Uploaded'' (str_of_oid 2)), empty_db\<lparr>db_media := media_same_time\<rparr>)"
    by (simp add: upload_event_poster_def lacks_prefix_def poster_jpg_def py_def ord_def
          upload_media_fresh ids_def empty_db_def media_one_def media_same_time_def)
  have u3: "upload_event_poster 2 999 id_seven poster_jpg (empty_db\<lparr>db_media := media_one\<rparr>) =
     (Inr (Created ''Uploaded'' (str_of_oid 2)), empty_db\<lparr>db_media := media_clock_back\<rparr>)"
    by (simp add: upload_event_poster_def lacks_prefix_def poster_jpg_def py_def ord_def
          upload_media_fresh ids_def empty_db_def media_one_def media_clock_back_def)
  have g1: "stream_latest_media media_same_time ''event_id'' id_seven ''event_poster'' =
      Inr (StreamingResponse [137, 80, 78, 71, 1] (BStr (py ''image/png'')) (BStr (py ''poster.png'')))"
    by (simp add: media_eval media_same_time_def media_one_def poster_png_def poster_jpg_def)
  have g2: "stream_latest_media media_clock_back ''event_id'' id_seven ''event_poster'' =
      Inr (StreamingResponse [137, 80, 78, 71, 1] (BStr (py ''image/png'')) (BStr (py ''poster.png'')))"
    by (simp add: media_eval media_clock_back_def media_one_def poster_png_def poster_jpg_def)
  from u1 u2 u3 g1 g2 show ?thesis
    by (simp add: get_event_poster_def empty_db_def poster_png_def poster_jpg_def)
qed

text \<open>
  Claim C7, amended: for every collection, owner id and media category, the latest-media
  lookup fails with HTTP 404 when no stored attachment holds both the owner id and the
  category, and otherwise answers from a stored attachment that holds both and whose
  upload timestamp no other such attachment exceeds. In particular, after two sequential
  uploads for the same owner and category, when the timestamp of the second is later than
  that of every attachment stored for them before it, the first upload included, it
  returns the bytes, the content type and the file name of the second upload and not the
  first. This is stated for files whose name and content type are Latin-1 text; what is
  answered for other file names is left open. The timestamps are the readings of the
  clock and an input of the model; the owner field is one of the two the source passes.
\<close>

theorem latest_media_is_newest:
  "(\<not> has_media c lf li mt \<longrightarrow>
      stream_latest_media c lf li mt = Inl (HTTPException 404 ''No media found'')) \<and>
   (has_media c lf li mt \<longrightarrow>
      (\<exists>d. newest c lf li mt d \<and> stream_latest_media c lf li mt = streaming_response d)) \<and>
   (lf \<in> {''event_id'', ''venue_id''} \<and>
    upload_media i1 t1 c lf li mt f1 = Inr (r1, c1) \<and>
    upload_media i2 t2 c1 lf li mt f2 = Inr (r2, c2) \<and>
    all_older c1 lf li mt t2 \<and> encodable f2 \<longrightarrow>
      stream_latest_media c2 lf li mt =
        Inr (StreamingResponse (content f2) (opt_str (content_type f2)) (opt_str (filename f2))) \<and>
      (content f1 \<noteq> content f2 \<longrightarrow>
         stream_latest_media c2 lf li mt \<noteq>
           Inr (StreamingResponse (content f1) (opt_str (content_type f1)) (opt_str (filename f1)))))"
proof (intro conjI impI)
  assume "\<not> has_media c lf li mt"
  then show "stream_latest_media c lf li mt = Inl (HTTPException 404 ''No media found'')"
    by (rule stream_latest_none)
next
  assume "has_media c lf li mt"
  then show "\<exists>d. newest c lf li mt d \<and> stream_latest_media c lf li mt = streaming_response d"
    by (rule stream_latest_some)
next
  assume a: "lf \<in> {''event_id'', ''venue_id''} \<and>
    upload_media i1 t1 c lf li mt f1 = Inr (r1, c1) \<and>
    upload_media i2 t2 c1 lf li mt f2 = Inr (r2, c2) \<and>
    all_older c1 lf li mt t2 \<and> encodable f2"
  then have lf: "lf \<in> {''event_id'', ''venue_id''}" and older: "all_older c1 lf li mt t2"
    and enc: "encodable f2" by simp_all
  from a have c2: "c2 = c1 @ [\<lparr>doc_id = i2, doc_fields = media_fields lf li mt f2 t2\<rparr>]"
    using upload_media_Inr by blast
  from stream_latest_newest[OF lf older enc]
  show r: "stream_latest_media c2 lf li mt =
        Inr (StreamingResponse (content f2) (opt_str (content_type f2)) (opt_str (filename f2)))"
    by (simp add: c2)
  assume "content f1 \<noteq> content f2"
  with r show "stream_latest_media c2 lf li mt \<noteq>
           Inr (StreamingResponse (content f1) (opt_str (content_type f1)) (opt_str (filename f1)))"
    by simp
qed

theorem latest_media_is_newest_witness:
  "\<not> has_media [] ''event_id'' id_seven ''event_poster'' \<and>
   stream_latest_media [] ''event_id'' id_seven ''event_poster'' = Inl (HTTPException 404 ''No media found'') \<and>
   has_media media_two ''event_id'' id_seven ''event_poster'' \<and>
   ''event_id'' \<in> {''event_id'', ''venue_id''} \<and>
   upload_media 1 1000 [] ''event_id'' id_seven ''event_poster'' poster_png
     = Inr (Created ''Uploaded'' (str_of_oid 1), media_one) \<and>
   upload_media 2 2000 media_one ''event_id'' id_seven ''event_poster'' poster_jpg
     = Inr (Created ''Uploaded'' (str_of_oid 2), media_two) \<and>
   all_older media_one ''event_id'' id_seven ''event_poster'' 2000 \<and> encodable poster_jpg \<and>
   content poster_png \<noteq> content poster_jpg \<and>
   stream_latest_media media_two ''event_id'' id_seven ''event_poster'' =
     Inr (StreamingResponse [255, 216, 255, 2] (BStr (py ''image/jpeg'')) (BStr (py ''poster.jpg''))) \<and>
   stream_latest_media media_two ''event_id'' id_seven ''event_poster'' \<noteq>
     Inr (StreamingResponse [137, 80, 78, 71, 1] (BStr (py ''image/png'')) (BStr (py ''poster.png''))) \<and>
   (\<exists>d. newest media_two ''event_id'' id_seven ''event_poster'' d \<and>
      streaming_response d =
        Inr (StreamingResponse [255, 216, 255, 2] (BStr (py ''image/jpeg'')) (BStr (py ''poster.jpg'')))) \<and>
   get_event_poster id_seven (empty_db\<lparr>db_media := media_two\<rparr>) =
     (Inr (StreamingResponse [255, 216, 255, 2] (BStr (py ''image/jpeg'')) (BStr (py ''poster.jpg''))),
      empty_db\<lparr>db_media := media_two\<rparr>)"
proof -
  have h0: "\<not> has_media [] ''event_id'' id_seven ''event_poster''" by (simp add: has_media_def)
  have h1: "''event_id'' \<in> {''event_id'', ''venue_id''}" by simp
  have h2: "upload_media 1 1000 [] ''event_id'' id_seven ''event_poster'' poster_png
     = Inr (Created ''Uploaded'' (str_of_oid 1), media_one)"
    by (simp add: upload_media_fresh ids_def media_one_def)
  have h3: "upload_media 2 2000 media_one ''event_id'' id_seven ''event_poster'' poster_jpg
     = Inr (Created ''Uploaded'' (str_of_oid 2), media_two)"
    by (simp add: upload_media_fresh ids_def media_one_def media_two_def)
  have h4: "all_older media_one ''event_id'' id_seven ''event_poster'' 2000"
    by (simp add: all_older_def media_one_def media_doc_date date_less_def)
  have h5: "encodable poster_jpg"
    by (simp add: encodable_def poster_jpg_def latin1_def py_def ord_def)
  have h6: "content poster_png \<noteq> content poster_jpg" by (simp add: poster_png_def poster_jpg_def)
  have h7: "has_media media_two ''event_id'' id_seven ''event_poster''"
    by (simp add: has_media_def media_two_def media_one_def media_doc_owned)
  note t = latest_media_is_newest[of "[]" "''event_id''" id_seven "''event_poster''" 1 1000 poster_png
              "Created ''Uploaded'' (str_of_oid 1)" media_one 2 2000 poster_jpg
              "Created ''Uploaded'' (str_of_oid 2)" media_two]
  from t h0 have r1: "stream_latest_media [] ''event_id'' id_seven ''event_poster'' =
      Inl (HTTPException 404 ''No media found'')" by blast
  from t h1 h2 h3 h4 h5 have "stream_latest_media media_two ''event_id'' id_seven ''event_poster'' =
     Inr (StreamingResponse (content poster_jpg) (opt_str (content_type poster_jpg))
            (opt_str (filename poster_jpg)))" by blast
  then have r2: "stream_latest_media media_two ''event_id'' id_seven ''event_poster'' =
     Inr (StreamingResponse [255, 216, 255, 2] (BStr (py ''image/jpeg'')) (BStr (py ''poster.jpg'')))"
    by (simp add: poster_jpg_def opt_str_def)
  then have r3: "get_event_poster id_seven (empty_db\<lparr>db_media := media_two\<rparr>) =
     (Inr (StreamingResponse [255, 216, 255, 2] (BStr (py ''image/jpeg'')) (BStr (py ''poster.jpg''))),
      empty_db\<lparr>db_media := media_two\<rparr>)"
    by (simp add: get_event_poster_def)
  from latest_media_is_newest[of media_two "''event_id''" id_seven "''event_poster''",
      THEN conjunct2, THEN conjunct1, rule_format, OF h7]
  obtain d where "newest media_two ''event_id'' id_seven ''event_poster'' d"
    and "stream_latest_media media_two ''event_id'' id_seven ''event_poster'' = streaming_response d"
    by blast
  with r2 have r4: "\<exists>d. newest media_two ''event_id'' id_seven ''event_poster'' d \<and>
      streaming_response d =
        Inr (StreamingResponse [255, 216, 255, 2] (BStr (py ''image/jpeg'')) (BStr (py ''poster.jpg'')))"
    by auto
  from h0 h1 h2 h3 h4 h5 h6 h7 r1 r2 r3 r4 show ?thesis by simp
qed

text \<open>
  Claim C10, as stated, has latest retrieval with a malformed owner id yield 404. Because
  upload stores any owner id, after a poster is uploaded under \<^verbatim>\<open>not-a-valid-id\<close> the
  retrieval under that id succeeds and streams the poster.
\<close>

theorem media_serves_malformed_owner_counterexample:
  "\<not> hex24 id_malformed \<and>
   upload_event_poster 1 1000 id_malformed poster_png empty_db =
     (Inr (Created ''Uploaded'' (str_of_oid 1)), db_malformed_owner) \<and>
   get_event_poster id_malformed db_malformed_owner =
     (Inr (StreamingResponse [137, 80, 78, 71, 1] (BStr (py ''image/png'')) (BStr (py ''poster.png''))),
      db_malformed_owner)"
proof -
  have u: "upload_event_poster 1 1000 id_malformed poster_png empty_db =
     (Inr (Created ''Uploaded'' (str_of_oid 1)), db_malformed_owner)"
    by (simp add: upload_event_poster_def lacks_prefix_def poster_png_def py_def ord_def
          upload_media_fresh ids_def empty_db_def db_malformed_owner_def)
  have "encodable poster_png" by (simp add: encodable_def poster_png_def latin1_def py_def ord_def)
  then have "stream_latest_media ([] @ [\<lparr>doc_id = 1, doc_fields = media_fields ''event_id'' id_malformed ''event_poster'' poster_png 1000\<rparr>])
          ''event_id'' id_malformed ''event_poster'' =
        Inr (StreamingResponse (content poster_png) (opt_str (content_type poster_png))
            (opt_str (filename poster_png)))"
    by (intro stream_latest_newest) (simp_all add: all_older_def)
  then have g: "get_event_poster id_malformed db_malformed_owner =
     (Inr (StreamingResponse [137, 80, 78, 71, 1] (BStr (py ''image/png'')) (BStr (py ''poster.png''))),
      db_malformed_owner)"
    by (simp add: get_event_poster_def db_malformed_owner_def empty_db_def poster_png_def opt_str_def)
  from not_hex24_malformed u g show ?thesis by blast
qed

text \<open>
  Claim C10, amended: media endpoints never decode the owner id. Each of the three upload
  endpoints, given a file with the required MIME prefix (and a fresh generated identifier),
  succeeds for every owner id string, malformed or unknown, and stores it verbatim under
  the owner field. Each of the three retrieval endpoints never yields 400, whatever the
  owner id, and leaves the database as it is. It yields 404 when no attachment is stored
  under that owner id and category. Otherwise it answers from the latest attachment stored
  under them; in particular, after an upload under any owner id string, with a timestamp
  later than those already stored under that owner id and category, of a file whose name
  and content type are Latin-1 text, the retrieval under the same string serves the bytes,
  the content type and the file name of that file.
\<close>

theorem media_owner_id_not_decoded:
  "(\<not> lacks_prefix (content_type file) ''image/'' \<and> new_id \<notin> ids (db_media db) \<longrightarrow>
      upload_event_poster new_id now s file db =
        (Inr (Created ''Uploaded'' (str_of_oid new_id)),
         db\<lparr>db_media := db_media db @
            [\<lparr>doc_id = new_id, doc_fields = media_fields ''event_id'' s ''event_poster'' file now\<rparr>]\<rparr>)) \<and>
   (\<not> lacks_prefix (content_type file) ''video/'' \<and> new_id \<notin> ids (db_media db) \<longrightarrow>
      upload_promo_video new_id now s file db =
        (Inr (Created ''Uploaded'' (str_of_oid new_id)),
         db\<lparr>db_media := db_media db @
            [\<lparr>doc_id = new_id, doc_fields = media_fields ''event_id'' s ''promo_video'' file now\<rparr>]\<rparr>)) \<and>
   (\<not> lacks_prefix (content_type file) ''image/'' \<and> new_id \<notin> ids (db_media db) \<longrightarrow>
      upload_venue_photo new_id now s file db =
        (Inr (Created ''Uploaded'' (str_of_oid new_id)),
         db\<lparr>db_media := db_media db @
            [\<lparr>doc_id = new_id, doc_fields = media_fields ''venue_id'' s ''venue_photo'' file now\<rparr>]\<rparr>)) \<and>
   media_fields ''event_id'' s mt file now =
     [(''event_id'', BStr s), (''media_type'', BStr (py mt)), (''filename'', opt_str (filename file)),
      (''content_type'', opt_str (content_type file)), (''content'', BBytes (content file)),
      (''uploaded_at'', BDate now)] \<and>
   media_fields ''venue_id'' s mt file now =
     [(''venue_id'', BStr s), (''media_type'', BStr (py mt)), (''filename'', opt_str (filename file)),
      (''content_type'', opt_str (content_type file)), (''content'', BBytes (content file)),
      (''uploaded_at'', BDate now)] \<and>
   (\<not> has_media (db_media db) ''event_id'' s ''event_poster'' \<longrightarrow>
      get_event_poster s db = (Inl (HTTPException 404 ''No media found''), db)) \<and>
   (\<not> has_media (db_media db) ''event_id'' s ''promo_video'' \<longrightarrow>
      get_promo_video s db = (Inl (HTTPException 404 ''No media found''), db)) \<and>
   (\<not> has_media (db_media db) ''venue_id'' s ''venue_photo'' \<longrightarrow>
      get_venue_photo s db = (Inl (HTTPException 404 ''No media found''), db)) \<and>
   (has_media (db_media db) ''event_id'' s ''event_poster'' \<longrightarrow>
      (\<exists>d. newest (db_media db) ''event_id'' s ''event_poster'' d \<and>
         get_event_poster s db = (streaming_response d, db))) \<and>
   (has_media (db_media db) ''event_id'' s ''promo_video'' \<longrightarrow>
      (\<exists>d. newest (db_media db) ''event_id'' s ''promo_video'' d \<and>
         get_promo_video s db = (streaming_response d, db))) \<and>
   (has_media (db_media db) ''venue_id'' s ''venue_photo'' \<longrightarrow>
      (\<exists>d. newest (db_media db) ''venue_id'' s ''venue_photo'' d \<and>
         get_venue_photo s db = (streaming_response d, db))) \<and>
   (\<not> lacks_prefix (content_type file) ''image/'' \<and> new_id \<notin> ids (db_media db) \<and>
    all_older (db_media db) ''event_id'' s ''event_poster'' now \<and> encodable file \<longrightarrow>
      get_event_poster s (snd (upload_event_poster new_id now s file db)) =
        (Inr (StreamingResponse (content file) (opt_str (content_type file)) (opt_str (filename file))),
         snd (upload_event_poster new_id now s file db))) \<and>
   (\<not> lacks_prefix (content_type file) ''video/'' \<and> new_id \<notin> ids (db_media db) \<and>
    all_older (db_media db) ''event_id'' s ''promo_video'' now \<and> encodable file \<longrightarrow>
      get_promo_video s (snd (upload_promo_video new_id now s file db)) =
        (Inr (StreamingResponse (content file) (opt_str (content_type file)) (opt_str (filename file))),
         snd (upload_promo_video new_id now s file db))) \<and>
   (\<not> lacks_prefix (content_type file) ''image/'' \<and> new_id \<notin> ids (db_media db) \<and>
    all_older (db_media db) ''venue_id'' s ''venue_photo'' now \<and> encodable file \<longrightarrow>
      get_venue_photo s (snd (upload_venue_photo new_id now s file db)) =
        (Inr (StreamingResponse (content file) (opt_str (content_type file)) (opt_str (filename file))),
         snd (upload_venue_photo new_id now s file db))) \<and>
   fst (get_event_poster s db) \<noteq> Inl (HTTPException 400 msg) \<and>
   fst (get_promo_video s db) \<noteq> Inl (HTTPException 400 msg) \<and>
   fst (get_venue_photo s db) \<noteq> Inl (HTTPException 400 msg)"
proof -
  have up1: "\<not> lacks_prefix (content_type file) ''image/'' \<and> new_id \<notin> ids (db_media db) \<Longrightarrow>
      upload_event_poster new_id now s file db =
        (Inr (Created ''Uploaded'' (str_of_oid new_id)),
         db\<lparr>db_media := db_media db @
            [\<lparr>doc_id = new_id, doc_fields = media_fields ''event_id'' s ''event_poster'' file now\<rparr>]\<rparr>)"
    by (simp add: upload_event_poster_def upload_media_fresh)
  have up2: "\<not> lacks_prefix (content_type file) ''video/'' \<and> new_id \<notin> ids (db_media db) \<Longrightarrow>
      upload_promo_video new_id now s file db =
        (Inr (Created ''Uploaded'' (str_of_oid new_id)),
         db\<lparr>db_media := db_media db @
            [\<lparr>doc_id = new_id, doc_fields = media_fields ''event_id'' s ''promo_video'' file now\<rparr>]\<rparr>)"
    by (simp add: upload_promo_video_def upload_media_fresh)
  have up3: "\<not> lacks_prefix (content_type file) ''image/'' \<and> new_id \<notin> ids (db_media db) \<Longrightarrow>
      upload_venue_photo new_id now s file db =
        (Inr (Created ''Uploaded'' (str_of_oid new_id)),
         db\<lparr>db_media := db_media db @
            [\<lparr>doc_id = new_id, doc_fields = media_fields ''venue_id'' s ''venue_photo'' file now\<rparr>]\<rparr>)"
    by (simp add: upload_venue_photo_def upload_media_fresh)
  have nf1: "\<not> has_media (db_media db) ''event_id'' s ''event_poster'' \<Longrightarrow>
      get_event_poster s db = (Inl (HTTPException 404 ''No media found''), db)"
    by (simp add: get_event_poster_def stream_latest_none)
  have nf2: "\<not> has_media (db_media db) ''event_id'' s ''promo_video'' \<Longrightarrow>
      get_promo_video s db = (Inl (HTTPException 404 ''No media found''), db)"
    by (simp add: get_promo_video_def stream_latest_none)
  have nf3: "\<not> has_media (db_media db) ''venue_id'' s ''venue_photo'' \<Longrightarrow>
      get_venue_photo s db = (Inl (HTTPException 404 ''No media found''), db)"
    by (simp add: get_venue_photo_def stream_latest_none)
  have g1: "get_event_poster s db = (stream_latest_media (db_media db) ''event_id'' s ''event_poster'', db)" for db
    by (simp add: get_event_poster_def split: sum.splits)
  have g2: "get_promo_video s db = (stream_latest_media (db_media db) ''event_id'' s ''promo_video'', db)" for db
    by (simp add: get_promo_video_def split: sum.splits)
  have g3: "get_venue_photo s db = (stream_latest_media (db_media db) ''venue_id'' s ''venue_photo'', db)" for db
    by (simp add: get_venue_photo_def split: sum.splits)
  have s1: "has_media (db_media db) ''event_id'' s ''event_poster'' \<Longrightarrow>
      \<exists>d. newest (db_media db) ''event_id'' s ''event_poster'' d \<and>
         get_event_poster s db = (streaming_response d, db)"
    using stream_latest_some[of "db_media db" "''event_id''" s "''event_poster''"] by (simp add: g1)
  have s2: "has_media (db_media db) ''event_id'' s ''promo_video'' \<Longrightarrow>
      \<exists>d. newest (db_media db) ''event_id'' s ''promo_video'' d \<and>
         get_promo_video s db = (streaming_response d, db)"
    using stream_latest_some[of "db_media db" "''event_id''" s "''promo_video''"] by (simp add: g2)
  have s3: "has_media (db_media db) ''venue_id'' s ''venue_photo'' \<Longrightarrow>
      \<exists>d. newest (db_media db) ''venue_id'' s ''venue_photo'' d \<and>
         get_venue_photo s db = (streaming_response d, db)"
    using stream_latest_some[of "db_media db" "''venue_id''" s "''venue_photo''"] by (simp add: g3)
  have a1: "\<not> lacks_prefix (content_type file) ''image/'' \<and> new_id \<notin> ids (db_media db) \<and>
    all_older (db_media db) ''event_id'' s ''event_poster'' now \<and> encodable file \<Longrightarrow>
      get_event_poster s (snd (upload_event_poster new_id now s file db)) =
        (Inr (StreamingResponse (content file) (opt_str (content_type file)) (opt_str (filename file))),
         snd (upload_event_poster new_id now s file db))"
    using stream_latest_newest[of "''event_id''" "db_media db" s "''event_poster''" now "file" new_id]
    by (simp add: up1 g1)
  have a2: "\<not> lacks_prefix (content_type file) ''video/'' \<and> new_id \<notin> ids (db_media db) \<and>
    all_older (db_media db) ''event_id'' s ''promo_video'' now \<and> encodable file \<Longrightarrow>
      get_promo_video s (snd (upload_promo_video new_id now s file db)) =
        (Inr (StreamingResponse (content file) (opt_str (content_type file)) (opt_str (filename file))),
         snd (upload_promo_video new_id now s file db))"
    using stream_latest_newest[of "''event_id''" "db_media db" s "''promo_video''" now "file" new_id]
    by (simp add: up2 g2)
  have a3: "\<not> lacks_prefix (content_type file) ''image/'' \<and> new_id \<notin> ids (db_media db) \<and>
    all_older (db_media db) ''venue_id'' s ''venue_photo'' now \<and> encodable file \<Longrightarrow>
      get_venue_photo s (snd (upload_venue_photo new_id now s file db)) =
        (Inr (StreamingResponse (content file) (opt_str (content_type file)) (opt_str (filename file))),
         snd (upload_venue_photo new_id now s file db))"
    using stream_latest_newest[of "''venue_id''" "db_media db" s "''venue_photo''" now "file" new_id]
    by (simp add: up3 g3)
  have n1: "fst (get_event_poster s db) \<noteq> Inl (HTTPException 400 msg)"
    by (simp add: g1 stream_latest_never_400)
  have n2: "fst (get_promo_video s db) \<noteq> Inl (HTTPException 400 msg)"
    by (simp add: g2 stream_latest_never_400)
  have n3: "fst (get_venue_photo s db) \<noteq> Inl (HTTPException 400 msg)"
    by (simp add: g3 stream_latest_never_400)
  have m1: "media_fields ''event_id'' s mt file now =
     [(''event_id'', BStr s), (''media_type'', BStr (py mt)), (''filename'', opt_str (filename file)),
      (''content_type'', opt_str (content_type file)), (''content'', BBytes (content file)),
      (''uploaded_at'', BDate now)]"
    by (simp add: media_fields_def)
  have m2: "media_fields ''venue_id'' s mt file now =
     [(''venue_id'', BStr s), (''media_type'', BStr (py mt)), (''filename'', opt_str (filename file)),
      (''content_type'', opt_str (content_type file)), (''content'', BBytes (content file)),
      (''uploaded_at'', BDate now)]"
    by (simp add: media_fields_def)
  from up1 up2 up3 nf1 nf2 nf3 s1 s2 s3 a1 a2 a3 n1 n2 n3 m1 m2 show ?thesis
    by (intro conjI impI) assumption+
qed

theorem media_owner_id_not_decoded_witness:
  "\<not> hex24 id_malformed \<and>
   \<not> lacks_prefix (content_type poster_png) ''image/'' \<and> 1 \<notin> ids (db_media empty_db) \<and>
   all_older (db_media empty_db) ''event_id'' id_malformed ''event_poster'' 1000 \<and> encodable poster_png \<and>
   upload_event_poster 1 1000 id_malformed poster_png empty_db =
     (Inr (Created ''Uploaded'' (str_of_oid 1)), db_malformed_owner) \<and>
   get_event_poster id_malformed db_malformed_owner =
     (Inr (StreamingResponse [137, 80, 78, 71, 1] (BStr (py ''image/png'')) (BStr (py ''poster.png''))),
      db_malformed_owner) \<and>
   \<not> has_media (db_media empty_db) ''event_id'' id_malformed ''event_poster'' \<and>
   get_event_poster id_malformed empty_db = (Inl (HTTPException 404 ''No media found''), empty_db) \<and>
   \<not> lacks_prefix (content_type promo_mp4) ''video/'' \<and> 2 \<notin> ids (db_media empty_db) \<and>
   all_older (db_media empty_db) ''event_id'' id_malformed ''promo_video'' 1000 \<and> encodable promo_mp4 \<and>
   upload_promo_video 2 1000 id_malformed promo_mp4 empty_db =
     (Inr (Created ''Uploaded'' (str_of_oid 2)), db_malformed_promo) \<and>
   get_promo_video id_malformed db_malformed_promo =
     (Inr (StreamingResponse [0, 0, 0, 24, 102, 116, 121, 112] (BStr (py ''video/mp4'')) (BStr (py ''promo.mp4''))),
      db_malformed_promo) \<and>
   \<not> has_media (db_media empty_db) ''event_id'' id_malformed ''promo_video'' \<and>
   get_promo_video id_malformed empty_db = (Inl (HTTPException 404 ''No media found''), empty_db) \<and>
   \<not> lacks_prefix (content_type poster_jpg) ''image/'' \<and> 3 \<notin> ids (db_media empty_db) \<and>
   all_older (db_media empty_db) ''venue_id'' id_malformed ''venue_photo'' 1000 \<and> encodable poster_jpg \<and>
   upload_venue_photo 3 1000 id_malformed poster_jpg empty_db =
     (Inr (Created ''Uploaded'' (str_of_oid 3)), db_malformed_venue) \<and>
   get_venue_photo id_malformed db_malformed_venue =
     (Inr (StreamingResponse [255, 216, 255, 2] (BStr (py ''image/jpeg'')) (BStr (py ''poster.jpg''))),
      db_malformed_venue) \<and>
   \<not> has_media (db_media empty_db) ''venue_id'' id_malformed ''venue_photo'' \<and>
   get_venue_photo id_malformed empty_db = (Inl (HTTPException 404 ''No media found''), empty_db)"
proof -
  have p1: "\<not> lacks_prefix (content_type poster_png) ''image/''"
    by (simp add: lacks_prefix_def poster_png_def py_def ord_def)
  have f1: "1 \<notin> ids (db_media empty_db)" by (simp add: empty_db_def ids_def)
  have o1: "all_older (db_media empty_db) ''event_id'' id_malformed ''event_poster'' 1000"
    by (simp add: empty_db_def all_older_def)
  have e1: "encodable poster_png" by (simp add: encodable_def poster_png_def latin1_def py_def ord_def)
  have n1: "\<not> has_media (db_media empty_db) ''event_id'' id_malformed ''event_poster''"
    by (simp add: empty_db_def has_media_def)
  note t1 = media_owner_id_not_decoded[of poster_png 1 empty_db 1000 id_malformed]
  from t1 p1 f1 have u1: "upload_event_poster 1 1000 id_malformed poster_png empty_db =
     (Inr (Created ''Uploaded'' (str_of_oid 1)), db_malformed_owner)"
    by (simp add: db_malformed_owner_def empty_db_def)
  from t1 p1 f1 o1 e1 have "get_event_poster id_malformed (snd (upload_event_poster 1 1000 id_malformed poster_png empty_db)) =
     (Inr (StreamingResponse (content poster_png) (opt_str (content_type poster_png)) (opt_str (filename poster_png))),
      snd (upload_event_poster 1 1000 id_malformed poster_png empty_db))"
    by blast
  then have g1: "get_event_poster id_malformed db_malformed_owner =
     (Inr (StreamingResponse [137, 80, 78, 71, 1] (BStr (py ''image/png'')) (BStr (py ''poster.png''))),
      db_malformed_owner)"
    unfolding u1 snd_conv by (simp add: poster_png_def opt_str_def)
  from t1 n1 have r1: "get_event_poster id_malformed empty_db = (Inl (HTTPException 404 ''No media found''), empty_db)"
    by blast
  have p2: "\<not> lacks_prefix (content_type promo_mp4) ''video/''"
    by (simp add: lacks_prefix_def promo_mp4_def py_def ord_def)
  have f2: "2 \<notin> ids (db_media empty_db)" by (simp add: empty_db_def ids_def)
  have o2: "all_older (db_media empty_db) ''event_id'' id_malformed ''promo_video'' 1000"
    by (simp add: empty_db_def all_older_def)
  have e2: "encodable promo_mp4" by (simp add: encodable_def promo_mp4_def latin1_def py_def ord_def)
  have n2: "\<not> has_media (db_media empty_db) ''event_id'' id_malformed ''promo_video''"
    by (simp add: empty_db_def has_media_def)
  note t2 = media_owner_id_not_decoded[of promo_mp4 2 empty_db 1000 id_malformed]
  from t2 p2 f2 have u2: "upload_promo_video 2 1000 id_malformed promo_mp4 empty_db =
     (Inr (Created ''Uploaded'' (str_of_oid 2)), db_malformed_promo)"
    by (simp add: db_malformed_promo_def empty_db_def)
  from t2 p2 f2 o2 e2 have "get_promo_video id_malformed (snd (upload_promo_video 2 1000 id_malformed promo_mp4 empty_db)) =
     (Inr (StreamingResponse (content promo_mp4) (opt_str (content_type promo_mp4)) (opt_str (filename promo_mp4))),
      snd (upload_promo_video 2 1000 id_malformed promo_mp4 empty_db))"
    by blast
  then have g2: "get_promo_video id_malformed db_malformed_promo =
     (Inr (StreamingResponse [0, 0, 0, 24, 102, 116, 121, 112] (BStr (py ''video/mp4'')) (BStr (py ''promo.mp4''))),
      db_malformed_promo)"
    unfolding u2 snd_conv by (simp add: promo_mp4_def opt_str_def)
  from t2 n2 have r2: "get_promo_video id_malformed empty_db = (Inl (HTTPException 404 ''No media found''), empty_db)"
    by blast
  have p3: "\<not> lacks_prefix (content_type poster_jpg) ''image/''"
    by (simp add: lacks_prefix_def poster_jpg_def py_def ord_def)
  have f3: "3 \<notin> ids (db_media empty_db)" by (simp add: empty_db_def ids_def)
  have o3: "all_older (db_media empty_db) ''venue_id'' id_malformed ''venue_photo'' 1000"
    by (simp add: empty_db_def all_older_def)
  have e3: "encodable poster_jpg" by (simp add: encodable_def poster_jpg_def latin1_def py_def ord_def)
  have n3: "\<not> has_media (db_media empty_db) ''venue_id'' id_malformed ''venue_photo''"
    by (simp add: empty_db_def has_media_def)
  note t3 = media_owner_id_not_decoded[of poster_jpg 3 empty_db 1000 id_malformed]
  from t3 p3 f3 have u3: "upload_venue_photo 3 1000 id_malformed poster_jpg empty_db =
     (Inr (Created ''Uploaded'' (str_of_oid 3)), db_malformed_venue)"
    by (simp add: db_malformed_venue_def empty_db_def)
  from t3 p3 f3 o3 e3 have "get_venue_photo id_malformed (snd (upload_venue_photo 3 1000 id_malformed poster_jpg empty_db)) =
     (Inr (StreamingResponse (content poster_jpg) (opt_str (content_type poster_jpg)) (opt_str (filename poster_jpg))),
      snd (upload_venue_photo 3 1000 id_malformed poster_jpg empty_db))"
    by blast
  then have g3: "get_venue_photo id_malformed db_malformed_venue =
     (Inr (StreamingResponse [255, 216, 255, 2] (BStr (py ''image/jpeg'')) (BStr (py ''poster.jpg''))),
      db_malformed_venue)"
    unfolding u3 snd_conv by (simp add: poster_jpg_def opt_str_def)
  from t3 n3 have r3: "get_venue_photo id_malformed empty_db = (Inl (HTTPException 404 ''No media found''), empty_db)"
    by blast
  from not_hex24_malformed p1 f1 o1 e1 u1 g1 n1 r1 p2 f2 o2 e2 u2 g2 n2 r2 p3 f3 o3 e3 u3 g3 n3 r3
  show ?thesis by simp
qed

end
